theory Spec2Isabelle
  imports Complex_Main "HOL-Library.AList"
begin

section \<open>JavaScript values\<close>

text \<open>
  At run time every document handled by \<^verbatim>\<open>aiDataGenerator.ts\<close> is a plain JavaScript
  value obtained from \<^verbatim>\<open>JSON.parse\<close>; the TypeScript types are erased. Objects keep
  their keys in insertion order, so they are association lists. Strings are lists of
  8-bit characters, numbers are integers. \<open>JUndefined\<close> is the value of a property
  that was assigned \<^verbatim>\<open>undefined\<close>.
\<close>

datatype jsval =
    JUndefined
  | JNull
  | JBool bool
  | JNum int
  | JStr string
  | JArr "jsval list"
  | JObj "(string \<times> jsval) list"

type_synonym jsobj = "(string \<times> jsval) list"

text \<open>The \<^verbatim>\<open>typeof\<close> operator: arrays and \<^verbatim>\<open>null\<close> are both \<^verbatim>\<open>'object'\<close>.\<close>

fun typeof :: "jsval \<Rightarrow> string" where
  "typeof JUndefined = ''undefined''"
| "typeof JNull = ''object''"
| "typeof (JBool b) = ''boolean''"
| "typeof (JNum n) = ''number''"
| "typeof (JStr s) = ''string''"
| "typeof (JArr xs) = ''object''"
| "typeof (JObj kvs) = ''object''"

text \<open>
  Truthiness, as tested by \<^verbatim>\<open>if (x)\<close> and \<^verbatim>\<open>!x\<close>. \<open>None\<close> stands for a
  missing property or for the \<^verbatim>\<open>null\<close> of a cache miss.
\<close>

fun truthy :: "jsval option \<Rightarrow> bool" where
  "truthy None = False"
| "truthy (Some JUndefined) = False"
| "truthy (Some JNull) = False"
| "truthy (Some (JBool b)) = b"
| "truthy (Some (JNum n)) = (n \<noteq> 0)"
| "truthy (Some (JStr s)) = (s \<noteq> [])"
| "truthy (Some (JArr xs)) = True"
| "truthy (Some (JObj kvs)) = True"

text \<open>\<^verbatim>\<open>String.prototype.trim\<close> on the Latin-1 range.\<close>

definition is_space :: "char \<Rightarrow> bool" where
  "is_space c = (c \<in> set [CHR 0x09, CHR 0x0A, CHR 0x0B, CHR 0x0C, CHR 0x0D, CHR 0x20, CHR 0xA0])"

definition trim :: "string \<Rightarrow> string" where
  "trim s = rev (dropWhile is_space (rev (dropWhile is_space s)))"

text \<open>\<^verbatim>\<open>Array.prototype.join\<close> on an array of strings.\<close>

fun join :: "string \<Rightarrow> string list \<Rightarrow> string" where
  "join sep [] = []"
| "join sep [x] = x"
| "join sep (x # y # ys) = x @ sep @ join sep (y # ys)"

text \<open>
  What a \<^verbatim>\<open>catch\<close> clause can receive: an instance of \<^verbatim>\<open>Error\<close> with its message, or
  any other thrown value.
\<close>

datatype thrown = Error string | NonError

section \<open>Azure OpenAI configuration\<close>

text \<open>
  \<^verbatim>\<open>interface AzureOpenAIConfig\<close>. The three required fields are declared
  \<^verbatim>\<open>string\<close>, but \<^verbatim>\<open>validateAzureConfig\<close> tests them for absence, so each is
  an option here (\<open>None\<close> for \<^verbatim>\<open>undefined\<close>).
\<close>

record AzureOpenAIConfig =
  endpoint :: "string option"
  apiKey :: "string option"
  deploymentName :: "string option"
  apiVersion :: "string option"

record config_check =
  valid :: bool
  error :: "string option"

text \<open>The test \<^verbatim>\<open>!s || !s.trim()\<close>.\<close>

fun blank :: "string option \<Rightarrow> bool" where
  "blank None = True"
| "blank (Some s) = (s = [] \<or> trim s = [])"

text \<open>
  \<^verbatim>\<open>validateAzureConfig\<close> (lines 61-82). \<^verbatim>\<open>new URL(...)\<close> is the platform's URL parser;
  \<open>url_parses\<close> says on which strings it does not throw.
\<close>

definition validateAzureConfig :: "(string \<Rightarrow> bool) \<Rightarrow> AzureOpenAIConfig \<Rightarrow> config_check" where
  "validateAzureConfig url_parses config =
     (if blank (endpoint config) then \<lparr>valid = False, error = Some ''Endpoint is required''\<rparr>
      else if blank (apiKey config) then \<lparr>valid = False, error = Some ''API Key is required''\<rparr>
      else if blank (deploymentName config)
        then \<lparr>valid = False, error = Some ''Deployment Name is required''\<rparr>
      else (case endpoint config of
              None \<Rightarrow> \<lparr>valid = False, error = Some ''Invalid endpoint URL format''\<rparr>
            | Some url \<Rightarrow>
                if url_parses url then \<lparr>valid = True, error = None\<rparr>
                else \<lparr>valid = False, error = Some ''Invalid endpoint URL format''\<rparr>))"

text \<open>The options object handed to \<^verbatim>\<open>new AzureOpenAI\<close> (lines 87-97).\<close>

record AzureOpenAI =
  client_endpoint :: "string option"
  client_apiKey :: "string option"
  client_apiVersion :: string
  deployment :: "string option"
  dangerouslyAllowBrowser :: bool

text \<open>\<^verbatim>\<open>config.apiVersion || '2025-04-01-preview'\<close>: an empty string is falsy too.\<close>

definition createAzureOpenAIClient :: "AzureOpenAIConfig \<Rightarrow> AzureOpenAI" where
  "createAzureOpenAIClient config =
     (let apiVersion' = (case apiVersion config of
                           None \<Rightarrow> ''2025-04-01-preview''
                         | Some v \<Rightarrow> if v = [] then ''2025-04-01-preview'' else v)
      in \<lparr>client_endpoint = endpoint config,
          client_apiKey = apiKey config,
          client_apiVersion = apiVersion',
          deployment = deploymentName config,
          dangerouslyAllowBrowser = True\<rparr>)"

section \<open>The environment and the observable state\<close>

text \<open>
  What \<^verbatim>\<open>client.chat.completions.create\<close> can do: throw, or resolve to a completion
  whose \<^verbatim>\<open>choices\<close> may be missing and whose first message content may be \<^verbatim>\<open>null\<close>.
\<close>

datatype response = Throws thrown | Completion "string option list option"

datatype schema =
    IndividualSchema | ProviderSchema | InsuranceInfoSchema | ClaimInfoSchema
  | LabReportSchema | VisitReportSchema | MedicalHistorySchema | W2Schema | PassportSchema

type_synonym issue = "string \<times> string"

text \<open>
  The result of \<^verbatim>\<open>validateWithSchema\<close>: every document schema is a \<^verbatim>\<open>z.object\<close>, so
  the typed value of a success is an object.
\<close>

datatype validation = Success jsobj | Failure "issue list"

text \<open>
  Everything the module calls but does not define. The endpoint and the random source are
  indexed by the number of earlier calls, so they may answer differently each time and
  depend in any way on the request sent (the prompts and the response format are fixed by
  the orchestrator's arguments and are not part of the model).
  \<^verbatim>\<open>validateWithSchema\<close> and \<^verbatim>\<open>formatZodErrors\<close> live in
  \<^verbatim>\<open>jsonSchemaGenerator.ts\<close>; \<open>JSON_parse\<close> returns the message of the
  \<^verbatim>\<open>SyntaxError\<close> on the left. \<open>Math_random\<close> gives the double that
  \<^verbatim>\<open>Math.random()\<close> returns, as the real number it denotes.
\<close>

record env =
  chat_completions_create :: "AzureOpenAI \<Rightarrow> nat \<Rightarrow> response"
  request_time :: "nat \<Rightarrow> nat"
  JSON_parse :: "string \<Rightarrow> string + jsval"
  validateWithSchema :: "schema \<Rightarrow> jsval \<Rightarrow> validation"
  formatZodErrors :: "issue list \<Rightarrow> string list"
  Math_random :: "nat \<Rightarrow> real"

record CacheConfig =
  enabled :: bool
  directory :: string
  ttl :: int

record CacheEntry =
  payload :: jsval
  storedAt :: int

type_synonym cache_key = "string \<times> jsval list"

text \<open>
  The state the module reads and writes: the cache files, the clock, and a log of what was
  done (attempts started, calls of the Model Invoker, random draws, back-off delays slept,
  values handed to the Schema Validator).
\<close>

record world =
  files :: "string \<times> cache_key \<Rightarrow> CacheEntry option"
  now :: int
  calls :: nat
  invocations :: nat
  draws :: nat
  delays :: "nat list"
  validated :: "(schema \<times> jsval) list"

section \<open>Cache Store\<close>

text \<open>
  Modelled from the spec: \<^verbatim>\<open>cache.ts\<close> (\<^verbatim>\<open>generateCacheKey\<close>) is not among the sources.
  Section 4.1: the key is a deterministic function of the generator name and the ordered
  parameter list; it is taken to be that pair itself.
\<close>

definition generateCacheKey :: "string \<Rightarrow> jsval list \<Rightarrow> cache_key" where
  "generateCacheKey name params = (name, params)"

text \<open>
  Modelled from the spec: \<^verbatim>\<open>cache.ts\<close> (\<^verbatim>\<open>getFromCache\<close>) is not among the sources.
  Section 4.1: a disabled cache always misses; an entry is a miss when
  \<open>now - storedAtEpochMs > ttlMillis\<close>, evaluated on read.
\<close>

definition getFromCache :: "CacheConfig \<Rightarrow> cache_key \<Rightarrow> world \<Rightarrow> jsval option" where
  "getFromCache cacheConfig key w =
     (if \<not> enabled cacheConfig then None
      else (case files w (directory cacheConfig, key) of
              None \<Rightarrow> None
            | Some entry \<Rightarrow>
                if now w - storedAt entry > ttl cacheConfig then None
                else Some (payload entry)))"

text \<open>
  Modelled from the spec: \<^verbatim>\<open>cache.ts\<close> (\<^verbatim>\<open>saveToCache\<close>) is not among the sources.
  Section 4.1: a disabled cache ignores the write; otherwise the entry named by the key
  under the directory is replaced by the payload and the time of the write.
\<close>

definition saveToCache :: "CacheConfig \<Rightarrow> cache_key \<Rightarrow> jsval \<Rightarrow> world \<Rightarrow> world" where
  "saveToCache cacheConfig key v w =
     (if enabled cacheConfig
      then w\<lparr>files := (files w)((directory cacheConfig, key) \<mapsto> \<lparr>payload = v, storedAt = now w\<rparr>)\<rparr>
      else w)"

section \<open>Model Invoker\<close>

text \<open>
  The body of the \<^verbatim>\<open>try\<close> block of \<^verbatim>\<open>generateDataWithAI\<close> (lines 117-155) for the
  attempt that is the \<open>k\<close>-th call of the endpoint: \<open>Inl\<close> is what it throws, \<open>Inr\<close>
  what it returns.
\<close>

definition attempt_result :: "env \<Rightarrow> AzureOpenAIConfig \<Rightarrow> nat \<Rightarrow> thrown + jsval" where
  "attempt_result env config k =
     (let client = createAzureOpenAIClient config in
      case chat_completions_create env client k of
        Throws t \<Rightarrow> Inl t
      | Completion None \<Rightarrow> Inl (Error ''No response from Azure OpenAI'')
      | Completion (Some []) \<Rightarrow> Inl (Error ''No response from Azure OpenAI'')
      | Completion (Some (None # rest)) \<Rightarrow> Inl (Error ''Empty response from Azure OpenAI'')
      | Completion (Some (Some content # rest)) \<Rightarrow>
          if content = [] \<or> trim content = [] then Inl (Error ''Empty response from Azure OpenAI'')
          else (case JSON_parse env content of
                  Inl syntax_error \<Rightarrow> Inl (Error syntax_error)
                | Inr parsedData \<Rightarrow>
                    if typeof parsedData \<noteq> ''object'' \<or> parsedData = JNull
                    then Inl (Error (''Invalid JSON structure: expected object, got '' @ typeof parsedData))
                    else Inr parsedData))"

text \<open>\<^verbatim>\<open>error instanceof Error ? error : new Error('Unknown error')\<close>\<close>

fun as_Error :: "thrown \<Rightarrow> thrown" where
  "as_Error (Error m) = Error m"
| "as_Error NonError = Error ''Unknown error''"

text \<open>\<^verbatim>\<open>throw lastError || new Error('Failed to generate medical data after all retries')\<close>\<close>

fun throw_lastError :: "thrown option \<Rightarrow> thrown" where
  "throw_lastError (Some e) = e"
| "throw_lastError None = Error ''Failed to generate medical data after all retries''"

text \<open>
  The retry loop (lines 114-175), from the iteration with counter \<open>attempt\<close> on. Each
  attempt is counted in \<open>calls\<close>; a failed attempt that is not the last one sleeps
  \<open>1000 * (attempt + 1)\<close> milliseconds.
\<close>

function generateDataWithAI_loop ::
  "env \<Rightarrow> AzureOpenAIConfig \<Rightarrow> nat \<Rightarrow> nat \<Rightarrow> thrown option \<Rightarrow> world \<Rightarrow> (thrown + jsval) \<times> world" where
  "generateDataWithAI_loop env config retries attempt lastError w =
     (if attempt < retries then
        (let w1 = w\<lparr>calls := calls w + 1, now := now w + int (request_time env (calls w))\<rparr> in
         case attempt_result env config (calls w) of
           Inr parsedData \<Rightarrow> (Inr parsedData, w1)
         | Inl err \<Rightarrow>
             (let lastError' = Some (as_Error err) in
              if attempt < retries - 1 then
                (let waitTime = 1000 * (attempt + 1) in
                 generateDataWithAI_loop env config retries (attempt + 1) lastError'
                   (w1\<lparr>delays := delays w1 @ [waitTime], now := now w1 + int waitTime\<rparr>))
              else (Inl (throw_lastError lastError'), w1)))
      else (Inl (throw_lastError lastError), w))"
  by pat_completeness auto
termination
  by (relation "measure (\<lambda>(env, config, retries, attempt, lastError, w). retries - attempt)") auto

declare generateDataWithAI_loop.simps [simp del]

text \<open>\<^verbatim>\<open>generateDataWithAI\<close> (lines 102-176); every orchestrator passes \<open>retries = 3\<close>.\<close>

definition generateDataWithAI ::
  "env \<Rightarrow> AzureOpenAIConfig \<Rightarrow> nat \<Rightarrow> world \<Rightarrow> (thrown + jsval) \<times> world" where
  "generateDataWithAI env config retries w =
     generateDataWithAI_loop env config retries 0 None (w\<lparr>invocations := invocations w + 1\<rparr>)"

text \<open>A call of \<^verbatim>\<open>validateWithSchema\<close>, logged.\<close>

definition validate :: "env \<Rightarrow> schema \<Rightarrow> jsval \<Rightarrow> world \<Rightarrow> validation \<times> world" where
  "validate env sch v w = (validateWithSchema env sch v, w\<lparr>validated := validated w @ [(sch, v)]\<rparr>)"

text \<open>
  The \<^verbatim>\<open>catch\<close> clause shared by the single-document orchestrators:
  \<^verbatim>\<open>throw new Error(`... failed: ${error instanceof Error ? error.message : 'Unknown error'}`)\<close>
\<close>

fun rethrow :: "string \<Rightarrow> thrown \<Rightarrow> thrown" where
  "rethrow what (Error m) = Error (what @ m)"
| "rethrow what NonError = Error (what @ ''Unknown error'')"

definition catch_rethrow :: "string \<Rightarrow> (thrown + 'a) \<times> world \<Rightarrow> (thrown + 'a) \<times> world" where
  "catch_rethrow what r =
     (case r of (Inl e, w) \<Rightarrow> (Inl (rethrow what e), w) | (Inr v, w) \<Rightarrow> (Inr v, w))"

section \<open>Documents passed in by the caller\<close>

text \<open>
  The argument \<^verbatim>\<open>individual\<close> has the type inferred from \<^verbatim>\<open>IndividualSchema\<close>
  (\<^verbatim>\<open>zodSchemas\<close>); nullable fields are options.
\<close>

datatype Gender = Male | Female | Other

record Address =
  street :: string
  city :: string
  state :: string
  zipCode :: string
  country :: "string option"

record Pharmacy =
  pharmacy_name :: string
  pharmacy_address :: string
  pharmacy_phone :: string

record Contact =
  phone :: string
  email :: string
  emergencyContact :: string

record Individual =
  id' :: string
  firstName :: string
  lastName :: string
  middleInitial :: "string option"
  dateOfBirth :: string
  age :: int
  gender :: Gender
  address :: Address
  contact :: Contact
  pharmacy :: Pharmacy
  medicalRecordNumber :: string
  ssn :: string
  accountNumber :: string
  companyName :: string
  employerEIN :: string
  employerAddress :: Address
  employerIndustry :: string
  employerPhone :: "string option"

datatype Complexity = Low | Medium | High

fun Complexity_js :: "Complexity \<Rightarrow> jsval" where
  "Complexity_js Low = JStr ''low''"
| "Complexity_js Medium = JStr ''medium''"
| "Complexity_js High = JStr ''high''"

text \<open>
  The arguments \<^verbatim>\<open>insuranceInfo\<close> and \<^verbatim>\<open>provider\<close> of
  \<^verbatim>\<open>generateClaimInfoWithAI\<close> have the types inferred from
  \<^verbatim>\<open>InsuranceInfoSchema\<close> and \<^verbatim>\<open>ProviderSchema\<close>. A field whose name is already
  the name of a field above carries the name of its record in front.
\<close>

record Insurance =
  insurance_provider :: string
  policyNumber :: string
  groupNumber :: "string option"
  effectiveDate :: string
  memberId :: "string option"
  copay :: "string option"
  deductible :: "string option"

record Insured =
  insured_firstName :: string
  insured_lastName :: string
  insured_policyNumber :: string
  planName :: string

datatype InsuranceType = Medicare | Medicaid | TRICARE | CHAMPVA | Group | FECA | OtherInsurance

record InsuranceInfo =
  primaryInsurance :: Insurance
  secondaryInsurance :: "Insurance option"
  subscriberFirstName :: string
  subscriberLastName :: string
  subscriberDOB :: string
  subscriberGender :: Gender
  insuranceType :: InsuranceType
  picaCode :: "string option"
  insuranceInfo_phone :: string
  insuranceInfo_address :: Address
  secondaryInsured :: "Insured option"

datatype Qualifier = DN | DK | DQ

record ReferringProvider =
  referringProvider_name :: string
  qualifier :: Qualifier
  referringProvider_npi :: string

datatype TaxIdType = SSN | EIN

record Provider =
  provider_name :: string
  npi :: string
  specialty :: string
  provider_phone :: string
  provider_address :: Address
  taxId :: string
  taxIdType :: TaxIdType
  signature :: "string option"
  facilityName :: string
  facilityAddress :: Address
  facilityPhone :: string
  facilityFax :: string
  facilityNPI :: string
  billingName :: string
  billingAddress :: string
  billingPhone :: string
  billingNPI :: string
  referringProvider :: "ReferringProvider option"

text \<open>
  The literal \<^verbatim>\<open>0.7\<close> is the double nearest to 7/10, which lies just below it; a
  comparison of two doubles is the comparison of the numbers they denote.
\<close>

definition double_0_7 :: real where
  "double_0_7 = 3152519739159347 / 4503599627370496"

text \<open>The same values as JavaScript objects, as they appear when copied into a document.\<close>

fun nullable :: "string option \<Rightarrow> jsval" where
  "nullable None = JNull"
| "nullable (Some s) = JStr s"

fun Gender_js :: "Gender \<Rightarrow> jsval" where
  "Gender_js Male = JStr ''Male''"
| "Gender_js Female = JStr ''Female''"
| "Gender_js Other = JStr ''Other''"

definition Address_js :: "Address \<Rightarrow> jsval" where
  "Address_js a = JObj [(''street'', JStr (street a)), (''city'', JStr (city a)),
     (''state'', JStr (state a)), (''zipCode'', JStr (zipCode a)), (''country'', nullable (country a))]"

definition Contact_js :: "Contact \<Rightarrow> jsval" where
  "Contact_js c = JObj [(''phone'', JStr (phone c)), (''email'', JStr (email c)),
     (''emergencyContact'', JStr (emergencyContact c))]"

definition Pharmacy_js :: "Pharmacy \<Rightarrow> jsval" where
  "Pharmacy_js p = JObj [(''name'', JStr (pharmacy_name p)), (''address'', JStr (pharmacy_address p)),
     (''phone'', JStr (pharmacy_phone p))]"

definition Individual_js :: "Individual \<Rightarrow> jsval" where
  "Individual_js i = JObj [(''id'', JStr (id' i)), (''firstName'', JStr (firstName i)),
     (''lastName'', JStr (lastName i)), (''middleInitial'', nullable (middleInitial i)),
     (''dateOfBirth'', JStr (dateOfBirth i)), (''age'', JNum (age i)), (''gender'', Gender_js (gender i)),
     (''address'', Address_js (address i)), (''contact'', Contact_js (contact i)),
     (''pharmacy'', Pharmacy_js (pharmacy i)), (''medicalRecordNumber'', JStr (medicalRecordNumber i)),
     (''ssn'', JStr (ssn i)), (''accountNumber'', JStr (accountNumber i)),
     (''companyName'', JStr (companyName i)), (''employerEIN'', JStr (employerEIN i)),
     (''employerAddress'', Address_js (employerAddress i)),
     (''employerIndustry'', JStr (employerIndustry i)), (''employerPhone'', nullable (employerPhone i))]"

section \<open>Object literals with a spread\<close>

text \<open>
  \<^verbatim>\<open>{...base, k1: v1, k2: v2}\<close>: the own properties of \<open>base\<close> in their order, then each
  listed property assigned in turn (an existing key keeps its place, a new one is appended).
\<close>

definition object_spread :: "jsobj \<Rightarrow> jsobj \<Rightarrow> jsobj" where
  "object_spread base props = foldl (\<lambda>obj (k, v). AList.update k v obj) base props"

fun string_of_nat :: "nat \<Rightarrow> string" where
  "string_of_nat n =
     (if n < 10 then [char_of (48 + n)] else string_of_nat (n div 10) @ [char_of (48 + n mod 10)])"

declare string_of_nat.simps [simp del]

text \<open>The own enumerable properties that \<^verbatim>\<open>...value\<close> copies: an array contributes its indices.\<close>

fun own_properties :: "jsval \<Rightarrow> jsobj" where
  "own_properties (JObj kvs) = kvs"
| "own_properties (JArr xs) = zip (map string_of_nat [0..<length xs]) xs"
| "own_properties (JStr s) = zip (map string_of_nat [0..<length s]) (map (\<lambda>c. JStr [c]) s)"
| "own_properties v = []"

section \<open>Generator orchestrators\<close>

text \<open>
  Each orchestrator takes the state and returns what it throws (\<open>Inl\<close>) or returns
  (\<open>Inr\<close>) together with the new state. The prompt texts are not modelled.

  The source file holds the module twice: lines 1-1086, and an older copy from line 1088
  on. The two differ in the wording of the prompts and in one statement, the subscriber
  override of \<^verbatim>\<open>generateInsuranceInfoWithAI\<close>, where the older copy assigns
  \<^verbatim>\<open>subscriberName: individual.name\<close> in place of the first and last name. Both
  copies of that function are defined below; of the other functions, whose two copies
  do the same, the first copy is.
\<close>

text \<open>\<^verbatim>\<open>generateIndividualWithAI\<close> (lines 190-269); \<^verbatim>\<open>config\<close> is optional.\<close>

definition generateIndividualWithAI ::
  "env \<Rightarrow> AzureOpenAIConfig option \<Rightarrow> CacheConfig \<Rightarrow> world \<Rightarrow> (thrown + jsval) \<times> world" where
  "generateIndividualWithAI env config cacheConfig w =
     (let cacheKey = generateCacheKey ''generateIndividual'' [];
          cached = getFromCache cacheConfig cacheKey w in
      if truthy cached then (Inr (the cached), w)
      else catch_rethrow ''Patient data generation failed: ''
        (case config of
           None \<Rightarrow> (Inl (Error ''Azure OpenAI configuration is required for AI data generation''), w)
         | Some cfg \<Rightarrow>
             (case generateDataWithAI env cfg 3 w of
                (Inl e, w1) \<Rightarrow> (Inl e, w1)
              | (Inr data, w1) \<Rightarrow>
                  (case validate env IndividualSchema data w1 of
                     (Failure errors, w2) \<Rightarrow>
                       (Inl (Error (''AI generated invalid patient data: ''
                                     @ join '', '' (formatZodErrors env errors))), w2)
                   | (Success validatedData, w2) \<Rightarrow>
                       (Inr (JObj validatedData),
                        saveToCache cacheConfig cacheKey (JObj validatedData) w2)))))"

text \<open>\<^verbatim>\<open>generateProviderWithAI\<close> (lines 279-353).\<close>

definition generateProviderWithAI ::
  "env \<Rightarrow> AzureOpenAIConfig \<Rightarrow> CacheConfig \<Rightarrow> world \<Rightarrow> (thrown + jsval) \<times> world" where
  "generateProviderWithAI env config cacheConfig w =
     (let cacheKey = generateCacheKey ''generateProvider'' [];
          cached = getFromCache cacheConfig cacheKey w in
      if truthy cached then (Inr (the cached), w)
      else catch_rethrow ''Provider data generation failed: ''
        (case generateDataWithAI env config 3 w of
           (Inl e, w1) \<Rightarrow> (Inl e, w1)
         | (Inr data, w1) \<Rightarrow>
             (case validate env ProviderSchema data w1 of
                (Failure errors, w2) \<Rightarrow>
                  (Inl (Error (''AI generated invalid provider data: ''
                                @ join '', '' (formatZodErrors env errors))), w2)
              | (Success validatedData, w2) \<Rightarrow>
                  (Inr (JObj validatedData),
                   saveToCache cacheConfig cacheKey (JObj validatedData) w2))))"

text \<open>
  \<^verbatim>\<open>generateInsuranceInfoWithAI\<close>, first copy (lines 365-462). \<^verbatim>\<open>Math.random() < 0.7\<close>
  is evaluated after the cache lookup and before the model is invoked; the override is
  the object literal of lines 441-449.
\<close>

definition generateInsuranceInfoWithAI ::
  "env \<Rightarrow> AzureOpenAIConfig \<Rightarrow> Individual \<Rightarrow> bool \<Rightarrow> CacheConfig \<Rightarrow> world
     \<Rightarrow> (thrown + jsval) \<times> world" where
  "generateInsuranceInfoWithAI env config individual includeSecondary cacheConfig w =
     (let cacheKey = generateCacheKey ''generateInsuranceInfo''
                       [JStr (id' individual), JBool includeSecondary];
          cached = getFromCache cacheConfig cacheKey w in
      if truthy cached then (Inr (the cached), w)
      else
        (let useIndividualAsSubscriber = (Math_random env (draws w) < double_0_7);
             w0 = w\<lparr>draws := draws w + 1\<rparr> in
         catch_rethrow ''Insurance data generation failed: ''
           (case generateDataWithAI env config 3 w0 of
              (Inl e, w1) \<Rightarrow> (Inl e, w1)
            | (Inr data, w1) \<Rightarrow>
                (case validate env InsuranceInfoSchema data w1 of
                   (Failure errors, w2) \<Rightarrow>
                     (Inl (Error (''AI generated invalid insurance data: ''
                                   @ join '', '' (formatZodErrors env errors))), w2)
                 | (Success validatedData0, w2) \<Rightarrow>
                     (let validatedData =
                            (if useIndividualAsSubscriber
                             then object_spread validatedData0
                                    [(''subscriberFirstName'', JStr (firstName individual)),
                                     (''subscriberLastName'', JStr (lastName individual)),
                                     (''subscriberDOB'', JStr (dateOfBirth individual)),
                                     (''subscriberGender'', Gender_js (gender individual)),
                                     (''address'', Address_js (address individual)),
                                     (''phone'', JStr (phone (contact individual)))]
                             else validatedData0) in
                      (Inr (JObj validatedData),
                       saveToCache cacheConfig cacheKey (JObj validatedData) w2))))))"

text \<open>
  The older copy of \<^verbatim>\<open>generateInsuranceInfoWithAI\<close> (lines 1430-1520), with the object
  literal of lines 1500-1507. An \<^verbatim>\<open>Individual\<close> has no property \<^verbatim>\<open>name\<close>, so
  \<^verbatim>\<open>individual.name\<close> is \<^verbatim>\<open>undefined\<close>; the keys \<^verbatim>\<open>subscriberFirstName\<close> and
  \<^verbatim>\<open>subscriberLastName\<close> are not assigned.
\<close>

definition generateInsuranceInfoWithAI_older ::
  "env \<Rightarrow> AzureOpenAIConfig \<Rightarrow> Individual \<Rightarrow> bool \<Rightarrow> CacheConfig \<Rightarrow> world
     \<Rightarrow> (thrown + jsval) \<times> world" where
  "generateInsuranceInfoWithAI_older env config individual includeSecondary cacheConfig w =
     (let cacheKey = generateCacheKey ''generateInsuranceInfo''
                       [JStr (id' individual), JBool includeSecondary];
          cached = getFromCache cacheConfig cacheKey w in
      if truthy cached then (Inr (the cached), w)
      else
        (let useIndividualAsSubscriber = (Math_random env (draws w) < double_0_7);
             w0 = w\<lparr>draws := draws w + 1\<rparr> in
         catch_rethrow ''Insurance data generation failed: ''
           (case generateDataWithAI env config 3 w0 of
              (Inl e, w1) \<Rightarrow> (Inl e, w1)
            | (Inr data, w1) \<Rightarrow>
                (case validate env InsuranceInfoSchema data w1 of
                   (Failure errors, w2) \<Rightarrow>
                     (Inl (Error (''AI generated invalid insurance data: ''
                                   @ join '', '' (formatZodErrors env errors))), w2)
                 | (Success validatedData0, w2) \<Rightarrow>
                     (let validatedData =
                            (if useIndividualAsSubscriber
                             then object_spread validatedData0
                                    [(''subscriberName'', JUndefined),
                                     (''subscriberDOB'', JStr (dateOfBirth individual)),
                                     (''subscriberGender'', Gender_js (gender individual)),
                                     (''address'', Address_js (address individual)),
                                     (''phone'', JStr (phone (contact individual)))]
                             else validatedData0) in
                      (Inr (JObj validatedData),
                       saveToCache cacheConfig cacheKey (JObj validatedData) w2))))))"

text \<open>
  \<^verbatim>\<open>generateClaimInfoWithAI\<close> (lines 475-568): lines 559 and 561 save and return
  \<^verbatim>\<open>data\<close>. After the cache lookup and before the \<^verbatim>\<open>try\<close>, the prompt reads
  \<^verbatim>\<open>insuranceInfo.primaryInsurance.provider\<close> and \<^verbatim>\<open>provider.name\<close> (lines 496-497);
  on the types of the two arguments these reads always yield a string, and nothing else
  of the arguments is used.
\<close>

definition generateClaimInfoWithAI ::
  "env \<Rightarrow> AzureOpenAIConfig \<Rightarrow> Individual \<Rightarrow> InsuranceInfo \<Rightarrow> Provider \<Rightarrow> CacheConfig \<Rightarrow> world
     \<Rightarrow> (thrown + jsval) \<times> world" where
  "generateClaimInfoWithAI env config individual insuranceInfo provider cacheConfig w =
     (let cacheKey = generateCacheKey ''generateClaimInfo'' [JStr (id' individual)];
          cached = getFromCache cacheConfig cacheKey w in
      if truthy cached then (Inr (the cached), w)
      else catch_rethrow ''CMS-1500 data generation failed: ''
        (case generateDataWithAI env config 3 w of
           (Inl e, w1) \<Rightarrow> (Inl e, w1)
         | (Inr data, w1) \<Rightarrow>
             (case validate env ClaimInfoSchema data w1 of
                (Failure errors, w2) \<Rightarrow>
                  (Inl (Error (''AI generated invalid CMS-1500 claim data: ''
                                @ join '', '' (formatZodErrors env errors))), w2)
              | (Success validatedData, w2) \<Rightarrow>
                  (Inr data, saveToCache cacheConfig cacheKey data w2))))"

text \<open>\<^verbatim>\<open>generateMedicalHistoryWithAI\<close> (lines 816-899).\<close>

definition generateMedicalHistoryWithAI ::
  "env \<Rightarrow> AzureOpenAIConfig \<Rightarrow> Complexity \<Rightarrow> CacheConfig \<Rightarrow> world \<Rightarrow> (thrown + jsval) \<times> world" where
  "generateMedicalHistoryWithAI env config complexity cacheConfig w =
     (let cacheKey = generateCacheKey ''generateMedicalHistory'' [Complexity_js complexity];
          cached = getFromCache cacheConfig cacheKey w in
      if truthy cached then (Inr (the cached), w)
      else catch_rethrow ''Medical history generation failed: ''
        (case generateDataWithAI env config 3 w of
           (Inl e, w1) \<Rightarrow> (Inl e, w1)
         | (Inr data, w1) \<Rightarrow>
             (case validate env MedicalHistorySchema data w1 of
                (Failure errors, w2) \<Rightarrow>
                  (Inl (Error (''AI generated invalid medical history: ''
                                @ join '', '' (formatZodErrors env errors))), w2)
              | (Success validatedData, w2) \<Rightarrow>
                  (Inr (JObj validatedData),
                   saveToCache cacheConfig cacheKey (JObj validatedData) w2))))"

text \<open>\<^verbatim>\<open>generateW2WithAI\<close> (lines 910-993).\<close>

definition generateW2WithAI ::
  "env \<Rightarrow> AzureOpenAIConfig \<Rightarrow> Individual \<Rightarrow> CacheConfig \<Rightarrow> world \<Rightarrow> (thrown + jsval) \<times> world" where
  "generateW2WithAI env config individual cacheConfig w =
     (let cacheKey = generateCacheKey ''generateW2'' [JStr (id' individual)];
          cached = getFromCache cacheConfig cacheKey w in
      if truthy cached then (Inr (the cached), w)
      else catch_rethrow ''W-2 data generation failed: ''
        (case generateDataWithAI env config 3 w of
           (Inl e, w1) \<Rightarrow> (Inl e, w1)
         | (Inr data, w1) \<Rightarrow>
             (case validate env W2Schema data w1 of
                (Failure errors, w2) \<Rightarrow>
                  (Inl (Error (''AI generated invalid W-2 data: ''
                                @ join '', '' (formatZodErrors env errors))), w2)
              | (Success validatedData, w2) \<Rightarrow>
                  (Inr (JObj validatedData),
                   saveToCache cacheConfig cacheKey (JObj validatedData) w2))))"

text \<open>
  \<^verbatim>\<open>generatePassportWithAI\<close> (lines 1004-1086): the validator is given
  \<^verbatim>\<open>{...data, individual}\<close>.
\<close>

definition generatePassportWithAI ::
  "env \<Rightarrow> AzureOpenAIConfig \<Rightarrow> Individual \<Rightarrow> CacheConfig \<Rightarrow> world \<Rightarrow> (thrown + jsval) \<times> world" where
  "generatePassportWithAI env config individual cacheConfig w =
     (let cacheKey = generateCacheKey ''generatePassport'' [JStr (id' individual)];
          cached = getFromCache cacheConfig cacheKey w in
      if truthy cached then (Inr (the cached), w)
      else catch_rethrow ''Passport data generation failed: ''
        (case generateDataWithAI env config 3 w of
           (Inl e, w1) \<Rightarrow> (Inl e, w1)
         | (Inr data, w1) \<Rightarrow>
             (let passportData =
                    JObj (object_spread (own_properties data) [(''individual'', Individual_js individual)]) in
              case validate env PassportSchema passportData w1 of
                (Failure errors, w2) \<Rightarrow>
                  (Inl (Error (''AI generated invalid passport data: ''
                                @ join '', '' (formatZodErrors env errors))), w2)
              | (Success validatedData, w2) \<Rightarrow>
                  (Inr (JObj validatedData),
                   saveToCache cacheConfig cacheKey (JObj validatedData) w2))))"

section \<open>Batch orchestrators\<close>

text \<open>
  One iteration of the loop of \<^verbatim>\<open>generateLabReportsWithAI\<close> (lines 609-694), from the
  array \<open>labReports\<close> built so far to the array after the iteration. The inner value is
  the \<^verbatim>\<open>try\<close> block: \<open>Inl\<close> is caught at line 690 and only logged; a validation failure
  leaves the block by \<^verbatim>\<open>continue\<close> (line 674).
\<close>

definition labReport_iteration ::
  "env \<Rightarrow> AzureOpenAIConfig \<Rightarrow> string \<Rightarrow> CacheConfig \<Rightarrow> string \<Rightarrow> jsval list \<Rightarrow> world
     \<Rightarrow> jsval list \<times> world" where
  "labReport_iteration env config orderingPhysician cacheConfig testType labReports w =
     (let cacheKey = generateCacheKey ''generateLabReport'' [JStr testType, JStr orderingPhysician];
          cached = getFromCache cacheConfig cacheKey w in
      if truthy cached then (labReports @ [the cached], w)
      else
        (case (case generateDataWithAI env config 3 w of
                 (Inl e, w1) \<Rightarrow> (Inl e, w1)
               | (Inr data, w1) \<Rightarrow>
                   (case validate env LabReportSchema data w1 of
                      (Failure errors, w2) \<Rightarrow> (Inr labReports, w2)
                    | (Success validatedReport0, w2) \<Rightarrow>
                        (let validatedReport =
                               (if \<not> truthy (map_of validatedReport0 ''testType'')
                                   \<and> \<not> truthy (map_of validatedReport0 ''testName'')
                                then AList.update ''testType'' (JStr testType) validatedReport0
                                else validatedReport0) in
                         (Inr (labReports @ [JObj validatedReport]),
                          saveToCache cacheConfig cacheKey (JObj validatedReport) w2))))
         of (Inl e, w') \<Rightarrow> (labReports, w')
          | (Inr labReports', w') \<Rightarrow> (labReports', w')))"

text \<open>The loop over \<^verbatim>\<open>testTypes\<close>, in order.\<close>

fun labReports_loop ::
  "env \<Rightarrow> AzureOpenAIConfig \<Rightarrow> string \<Rightarrow> CacheConfig \<Rightarrow> string list \<Rightarrow> jsval list \<Rightarrow> world
     \<Rightarrow> jsval list \<times> world" where
  "labReports_loop env config orderingPhysician cacheConfig [] labReports w = (labReports, w)"
| "labReports_loop env config orderingPhysician cacheConfig (testType # rest) labReports w =
     (case labReport_iteration env config orderingPhysician cacheConfig testType labReports w of
        (labReports', w') \<Rightarrow> labReports_loop env config orderingPhysician cacheConfig rest labReports' w')"

text \<open>\<^verbatim>\<open>generateLabReportsWithAI\<close> (lines 580-699).\<close>

definition generateLabReportsWithAI ::
  "env \<Rightarrow> AzureOpenAIConfig \<Rightarrow> string list \<Rightarrow> string \<Rightarrow> CacheConfig \<Rightarrow> world
     \<Rightarrow> (thrown + jsval list) \<times> world" where
  "generateLabReportsWithAI env config testTypes orderingPhysician cacheConfig w =
     (case labReports_loop env config orderingPhysician cacheConfig testTypes [] w of
        (labReports, w') \<Rightarrow> (Inr labReports, w'))"

text \<open>One iteration of the loop of \<^verbatim>\<open>generateVisitReportsWithAI\<close> (lines 721-800).\<close>

definition visitReport_iteration ::
  "env \<Rightarrow> AzureOpenAIConfig \<Rightarrow> string \<Rightarrow> CacheConfig \<Rightarrow> nat \<Rightarrow> jsval list \<Rightarrow> world
     \<Rightarrow> jsval list \<times> world" where
  "visitReport_iteration env config providerName cacheConfig visitIndex visitReports w =
     (let cacheKey = generateCacheKey ''generateVisitReport'' [JNum (int visitIndex), JStr providerName];
          cached = getFromCache cacheConfig cacheKey w in
      if truthy cached then (visitReports @ [the cached], w)
      else
        (case (case generateDataWithAI env config 3 w of
                 (Inl e, w1) \<Rightarrow> (Inl e, w1)
               | (Inr data, w1) \<Rightarrow>
                   (case validate env VisitReportSchema data w1 of
                      (Failure errors, w2) \<Rightarrow> (Inr visitReports, w2)
                    | (Success validatedData, w2) \<Rightarrow>
                        (Inr (visitReports @ [JObj validatedData]),
                         saveToCache cacheConfig cacheKey (JObj validatedData) w2)))
         of (Inl e, w') \<Rightarrow> (visitReports, w')
          | (Inr visitReports', w') \<Rightarrow> (visitReports', w')))"

text \<open>The loop \<^verbatim>\<open>for (let i = 0; i < numberOfVisits; i++)\<close>, from counter \<open>i\<close> on.\<close>

function visitReports_loop ::
  "env \<Rightarrow> AzureOpenAIConfig \<Rightarrow> int \<Rightarrow> string \<Rightarrow> CacheConfig \<Rightarrow> nat \<Rightarrow> jsval list \<Rightarrow> world
     \<Rightarrow> jsval list \<times> world" where
  "visitReports_loop env config numberOfVisits providerName cacheConfig i visitReports w =
     (if int i < numberOfVisits then
        (case visitReport_iteration env config providerName cacheConfig i visitReports w of
           (visitReports', w') \<Rightarrow>
             visitReports_loop env config numberOfVisits providerName cacheConfig (i + 1) visitReports' w')
      else (visitReports, w))"
  by pat_completeness auto
termination
  by (relation "measure (\<lambda>(env, config, numberOfVisits, providerName, cacheConfig, i, visitReports, w).
                           nat (numberOfVisits - int i))") auto

declare visitReports_loop.simps [simp del]

text \<open>\<^verbatim>\<open>generateVisitReportsWithAI\<close> (lines 711-805).\<close>

definition generateVisitReportsWithAI ::
  "env \<Rightarrow> AzureOpenAIConfig \<Rightarrow> int \<Rightarrow> string \<Rightarrow> CacheConfig \<Rightarrow> world
     \<Rightarrow> (thrown + jsval list) \<times> world" where
  "generateVisitReportsWithAI env config numberOfVisits providerName cacheConfig w =
     (case visitReports_loop env config numberOfVisits providerName cacheConfig 0 [] w of
        (visitReports, w') \<Rightarrow> (Inr visitReports, w'))"

section \<open>The single-document orchestrators, by name\<close>

text \<open>
  A call of one of the seven single-document orchestrators with its arguments, so that a
  property of all of them can be stated once. The insurance orchestrator appears twice,
  once for each copy in the source.
\<close>

datatype generator =
    GenerateIndividual "AzureOpenAIConfig option"
  | GenerateProvider AzureOpenAIConfig
  | GenerateInsuranceInfo AzureOpenAIConfig Individual bool
  | GenerateInsuranceInfo_older AzureOpenAIConfig Individual bool
  | GenerateClaimInfo AzureOpenAIConfig Individual InsuranceInfo Provider
  | GenerateMedicalHistory AzureOpenAIConfig Complexity
  | GenerateW2 AzureOpenAIConfig Individual
  | GeneratePassport AzureOpenAIConfig Individual

fun generate :: "env \<Rightarrow> generator \<Rightarrow> CacheConfig \<Rightarrow> world \<Rightarrow> (thrown + jsval) \<times> world" where
  "generate env (GenerateIndividual config) cacheConfig w =
     generateIndividualWithAI env config cacheConfig w"
| "generate env (GenerateProvider config) cacheConfig w =
     generateProviderWithAI env config cacheConfig w"
| "generate env (GenerateInsuranceInfo config individual includeSecondary) cacheConfig w =
     generateInsuranceInfoWithAI env config individual includeSecondary cacheConfig w"
| "generate env (GenerateInsuranceInfo_older config individual includeSecondary) cacheConfig w =
     generateInsuranceInfoWithAI_older env config individual includeSecondary cacheConfig w"
| "generate env (GenerateClaimInfo config individual insuranceInfo provider) cacheConfig w =
     generateClaimInfoWithAI env config individual insuranceInfo provider cacheConfig w"
| "generate env (GenerateMedicalHistory config complexity) cacheConfig w =
     generateMedicalHistoryWithAI env config complexity cacheConfig w"
| "generate env (GenerateW2 config individual) cacheConfig w =
     generateW2WithAI env config individual cacheConfig w"
| "generate env (GeneratePassport config individual) cacheConfig w =
     generatePassportWithAI env config individual cacheConfig w"

text \<open>The endpoint configuration of the call, when one was given.\<close>

fun config_of :: "generator \<Rightarrow> AzureOpenAIConfig option" where
  "config_of (GenerateIndividual config) = config"
| "config_of (GenerateProvider config) = Some config"
| "config_of (GenerateInsuranceInfo config individual includeSecondary) = Some config"
| "config_of (GenerateInsuranceInfo_older config individual includeSecondary) = Some config"
| "config_of (GenerateClaimInfo config individual insuranceInfo provider) = Some config"
| "config_of (GenerateMedicalHistory config complexity) = Some config"
| "config_of (GenerateW2 config individual) = Some config"
| "config_of (GeneratePassport config individual) = Some config"

text \<open>The cache key each orchestrator derives (its first statement).\<close>

fun cacheKey_of :: "generator \<Rightarrow> cache_key" where
  "cacheKey_of (GenerateIndividual config) = generateCacheKey ''generateIndividual'' []"
| "cacheKey_of (GenerateProvider config) = generateCacheKey ''generateProvider'' []"
| "cacheKey_of (GenerateInsuranceInfo config individual includeSecondary) =
     generateCacheKey ''generateInsuranceInfo'' [JStr (id' individual), JBool includeSecondary]"
| "cacheKey_of (GenerateInsuranceInfo_older config individual includeSecondary) =
     generateCacheKey ''generateInsuranceInfo'' [JStr (id' individual), JBool includeSecondary]"
| "cacheKey_of (GenerateClaimInfo config individual insuranceInfo provider) =
     generateCacheKey ''generateClaimInfo'' [JStr (id' individual)]"
| "cacheKey_of (GenerateMedicalHistory config complexity) =
     generateCacheKey ''generateMedicalHistory'' [Complexity_js complexity]"
| "cacheKey_of (GenerateW2 config individual) = generateCacheKey ''generateW2'' [JStr (id' individual)]"
| "cacheKey_of (GeneratePassport config individual) =
     generateCacheKey ''generatePassport'' [JStr (id' individual)]"

text \<open>The schema each orchestrator validates against.\<close>

fun schema_of :: "generator \<Rightarrow> schema" where
  "schema_of (GenerateIndividual config) = IndividualSchema"
| "schema_of (GenerateProvider config) = ProviderSchema"
| "schema_of (GenerateInsuranceInfo config individual includeSecondary) = InsuranceInfoSchema"
| "schema_of (GenerateInsuranceInfo_older config individual includeSecondary) = InsuranceInfoSchema"
| "schema_of (GenerateClaimInfo config individual insuranceInfo provider) = ClaimInfoSchema"
| "schema_of (GenerateMedicalHistory config complexity) = MedicalHistorySchema"
| "schema_of (GenerateW2 config individual) = W2Schema"
| "schema_of (GeneratePassport config individual) = PassportSchema"

text \<open>The value each orchestrator hands to the Schema Validator, given the model's value.\<close>

fun validator_input :: "generator \<Rightarrow> jsval \<Rightarrow> jsval" where
  "validator_input (GeneratePassport config individual) data =
     JObj (object_spread (own_properties data) [(''individual'', Individual_js individual)])"
| "validator_input g data = data"

text \<open>The prefix of the error thrown by the \<^verbatim>\<open>catch\<close> clause of each orchestrator.\<close>

fun failure_prefix :: "generator \<Rightarrow> string" where
  "failure_prefix (GenerateIndividual config) = ''Patient data generation failed: ''"
| "failure_prefix (GenerateProvider config) = ''Provider data generation failed: ''"
| "failure_prefix (GenerateInsuranceInfo config individual includeSecondary) =
     ''Insurance data generation failed: ''"
| "failure_prefix (GenerateInsuranceInfo_older config individual includeSecondary) =
     ''Insurance data generation failed: ''"
| "failure_prefix (GenerateClaimInfo config individual insuranceInfo provider) =
     ''CMS-1500 data generation failed: ''"
| "failure_prefix (GenerateMedicalHistory config complexity) = ''Medical history generation failed: ''"
| "failure_prefix (GenerateW2 config individual) = ''W-2 data generation failed: ''"
| "failure_prefix (GeneratePassport config individual) = ''Passport data generation failed: ''"

text \<open>The prefix of the error each orchestrator throws when validation fails.\<close>

fun invalid_prefix :: "generator \<Rightarrow> string" where
  "invalid_prefix (GenerateIndividual config) = ''AI generated invalid patient data: ''"
| "invalid_prefix (GenerateProvider config) = ''AI generated invalid provider data: ''"
| "invalid_prefix (GenerateInsuranceInfo config individual includeSecondary) =
     ''AI generated invalid insurance data: ''"
| "invalid_prefix (GenerateInsuranceInfo_older config individual includeSecondary) =
     ''AI generated invalid insurance data: ''"
| "invalid_prefix (GenerateClaimInfo config individual insuranceInfo provider) =
     ''AI generated invalid CMS-1500 claim data: ''"
| "invalid_prefix (GenerateMedicalHistory config complexity) = ''AI generated invalid medical history: ''"
| "invalid_prefix (GenerateW2 config individual) = ''AI generated invalid W-2 data: ''"
| "invalid_prefix (GeneratePassport config individual) = ''AI generated invalid passport data: ''"

text \<open>The state in which the Model Invoker is called: only the insurance orchestrator draws.\<close>

fun before_invoke :: "generator \<Rightarrow> world \<Rightarrow> world" where
  "before_invoke (GenerateInsuranceInfo config individual includeSecondary) w = w\<lparr>draws := draws w + 1\<rparr>"
| "before_invoke (GenerateInsuranceInfo_older config individual includeSecondary) w =
     w\<lparr>draws := draws w + 1\<rparr>"
| "before_invoke g w = w"

text \<open>The subscriber override of lines 441-449.\<close>

definition subscriber_override :: "Individual \<Rightarrow> jsobj \<Rightarrow> jsobj" where
  "subscriber_override individual validatedData =
     object_spread validatedData
       [(''subscriberFirstName'', JStr (firstName individual)),
        (''subscriberLastName'', JStr (lastName individual)),
        (''subscriberDOB'', JStr (dateOfBirth individual)),
        (''subscriberGender'', Gender_js (gender individual)),
        (''address'', Address_js (address individual)),
        (''phone'', JStr (phone (contact individual)))]"

text \<open>The subscriber override of the older copy (lines 1500-1507).\<close>

definition subscriber_override_older :: "Individual \<Rightarrow> jsobj \<Rightarrow> jsobj" where
  "subscriber_override_older individual validatedData =
     object_spread validatedData
       [(''subscriberName'', JUndefined),
        (''subscriberDOB'', JStr (dateOfBirth individual)),
        (''subscriberGender'', Gender_js (gender individual)),
        (''address'', Address_js (address individual)),
        (''phone'', JStr (phone (contact individual)))]"

text \<open>
  The value saved and returned after a successful validation, from the model's value
  \<open>data\<close> and the validator's output \<open>validatedData\<close>; \<open>w\<close> is the state at the call.
\<close>

fun produced :: "env \<Rightarrow> generator \<Rightarrow> world \<Rightarrow> jsval \<Rightarrow> jsobj \<Rightarrow> jsval" where
  "produced env (GenerateClaimInfo config individual insuranceInfo provider) w data validatedData = data"
| "produced env (GenerateInsuranceInfo config individual includeSecondary) w data validatedData =
     JObj (if Math_random env (draws w) < double_0_7 then subscriber_override individual validatedData
           else validatedData)"
| "produced env (GenerateInsuranceInfo_older config individual includeSecondary) w data validatedData =
     JObj (if Math_random env (draws w) < double_0_7
           then subscriber_override_older individual validatedData
           else validatedData)"
| "produced env g w data validatedData = JObj validatedData"

section \<open>Outcomes of the requested items of a batch\<close>

text \<open>
  For each requested item, in request order, the value its iteration appends (\<open>None\<close>
  when the item is dropped). The iteration is run on the empty array, in the state left by
  the iterations before it.
\<close>

definition appended :: "jsval list \<Rightarrow> jsval option" where
  "appended pushed = (case pushed of [] \<Rightarrow> None | v # rest \<Rightarrow> Some v)"

fun labReport_outcomes ::
  "env \<Rightarrow> AzureOpenAIConfig \<Rightarrow> string \<Rightarrow> CacheConfig \<Rightarrow> string list \<Rightarrow> world \<Rightarrow> jsval option list" where
  "labReport_outcomes env config orderingPhysician cacheConfig [] w = []"
| "labReport_outcomes env config orderingPhysician cacheConfig (testType # rest) w =
     (case labReport_iteration env config orderingPhysician cacheConfig testType [] w of
        (pushed, w') \<Rightarrow>
          appended pushed # labReport_outcomes env config orderingPhysician cacheConfig rest w')"

function visitReport_outcomes ::
  "env \<Rightarrow> AzureOpenAIConfig \<Rightarrow> int \<Rightarrow> string \<Rightarrow> CacheConfig \<Rightarrow> nat \<Rightarrow> world \<Rightarrow> jsval option list" where
  "visitReport_outcomes env config numberOfVisits providerName cacheConfig i w =
     (if int i < numberOfVisits then
        (case visitReport_iteration env config providerName cacheConfig i [] w of
           (pushed, w') \<Rightarrow>
             appended pushed
               # visitReport_outcomes env config numberOfVisits providerName cacheConfig (i + 1) w')
      else [])"
  by pat_completeness auto
termination
  by (relation "measure (\<lambda>(env, config, numberOfVisits, providerName, cacheConfig, i, w).
                           nat (numberOfVisits - int i))") auto

declare visitReport_outcomes.simps [simp del]

section \<open>Example inputs\<close>

definition example_config :: AzureOpenAIConfig where
  "example_config = \<lparr>endpoint = Some ''https://docgen.openai.azure.com'', apiKey = Some ''key'',
     deploymentName = Some ''gpt'', apiVersion = None\<rparr>"

definition https_only :: "string \<Rightarrow> bool" where
  "https_only url = (take 8 url = ''https://'')"

text \<open>What \<^verbatim>\<open>JSON.parse\<close> returns on a few bodies; every other body is a syntax error here.\<close>

definition example_parse :: "string \<Rightarrow> string + jsval" where
  "example_parse body =
     (if body = ''{}'' then Inr (JObj [])
      else if body = ''[]'' then Inr (JArr [])
      else if body = ''42'' then Inr (JNum 42)
      else if body = ''null'' then Inr JNull
      else if body = ''{\"extra\":1}'' then Inr (JObj [(''extra'', JNum 1)])
      else if body = ''{\"testName\":\"A\"}'' then Inr (JObj [(''testName'', JStr ''A'')])
      else if body = ''{\"testName\":\"B\"}'' then Inr (JObj [(''testName'', JStr ''B'')])
      else if body = ''{\"testName\":\"C\"}'' then Inr (JObj [(''testName'', JStr ''C'')])
      else if body = ''{\"subscriberFirstName\":\"Eve\",\"picaCode\":null}''
        then Inr (JObj [(''subscriberFirstName'', JStr ''Eve''), (''picaCode'', JNull)])
      else Inl ''Unexpected token'')"

text \<open>A validator that accepts exactly the objects and strips every key.\<close>

definition example_validator :: "schema \<Rightarrow> jsval \<Rightarrow> validation" where
  "example_validator sch v = (case v of JObj kvs \<Rightarrow> Success [] | _ \<Rightarrow> Failure [(''root'', ''Expected object'')])"

text \<open>A validator that accepts exactly the objects and returns them as they are.\<close>

definition keeping_validator :: "schema \<Rightarrow> jsval \<Rightarrow> validation" where
  "keeping_validator sch v = (case v of JObj kvs \<Rightarrow> Success kvs | _ \<Rightarrow> Failure [(''root'', ''Expected object'')])"

definition example_format :: "issue list \<Rightarrow> string list" where
  "example_format errors = map (\<lambda>(path, message). path @ '': '' @ message) errors"

text \<open>An endpoint that answers every request with the given body.\<close>

definition answering :: "string \<Rightarrow> env" where
  "answering body =
     \<lparr>chat_completions_create = (\<lambda>client k. Completion (Some [Some body])),
      request_time = (\<lambda>k. 250),
      JSON_parse = example_parse,
      validateWithSchema = example_validator,
      formatZodErrors = example_format,
      Math_random = (\<lambda>k. 1 / 2)\<rparr>"

text \<open>The same environment with another validator, and with another random draw.\<close>

definition keeping :: "env \<Rightarrow> env" where
  "keeping env = env\<lparr>validateWithSchema := keeping_validator\<rparr>"


text \<open>
  An endpoint whose first three requests fail in three ways: a transport error, a blank
  body, and a body that parses to a number.
\<close>

definition flaky_env :: env where
  "flaky_env =
     \<lparr>chat_completions_create =
        (\<lambda>client k. if k = 0 then Throws (Error ''fetch failed'')
                     else if k = 1 then Completion (Some [Some '' ''])
                     else Completion (Some [Some ''42''])),
      request_time = (\<lambda>k. 250),
      JSON_parse = example_parse,
      validateWithSchema = example_validator,
      formatZodErrors = example_format,
      Math_random = (\<lambda>k. 1 / 2)\<rparr>"

definition no_files :: "string \<times> cache_key \<Rightarrow> CacheEntry option" where
  "no_files = (\<lambda>file. None)"

definition world0 :: world where
  "world0 = \<lparr>files = no_files, now = 0, calls = 0, invocations = 0, draws = 0, delays = [],
     validated = []\<rparr>"

definition example_cache :: CacheConfig where
  "example_cache = \<lparr>enabled = True, directory = ''.cache/ai-data-tests'', ttl = 3600000\<rparr>"

text \<open>A cache directory holding three entries that no schema accepts.\<close>

definition stale_files :: "string \<times> cache_key \<Rightarrow> CacheEntry option" where
  "stale_files =
     no_files((''.cache/ai-data-tests'', (''generateProvider'', []))
                \<mapsto> \<lparr>payload = JArr [JStr ''stale''], storedAt = 0\<rparr>,
              (''.cache/ai-data-tests'', (''generateLabReport'', [JStr ''CBC'', JStr ''Dr. Lee'']))
                \<mapsto> \<lparr>payload = JArr [JStr ''stale lab''], storedAt = 0\<rparr>,
              (''.cache/ai-data-tests'', (''generateVisitReport'', [JNum 0, JStr ''Dr. Lee'']))
                \<mapsto> \<lparr>payload = JArr [JStr ''stale visit''], storedAt = 0\<rparr>)"

definition cached_world :: world where
  "cached_world =
     \<lparr>files = stale_files, now = 1000, calls = 0, invocations = 0, draws = 0, delays = [],
      validated = []\<rparr>"

definition example_individual :: Individual where
  "example_individual =
     \<lparr>id' = ''p-1'', firstName = ''Ada'', lastName = ''Byron'', middleInitial = None,
      dateOfBirth = ''12/10/1985'', age = 39, gender = Female,
      address = \<lparr>street = ''1 Main St'', city = ''Salem'', state = ''OR'', zipCode = ''97301'',
                 country = None\<rparr>,
      contact = \<lparr>phone = ''(503) 555-0100'', email = ''ada@example.org'',
                 emergencyContact = ''Bob (503) 555-0101''\<rparr>,
      pharmacy = \<lparr>pharmacy_name = ''Rx'', pharmacy_address = ''2 Main St'',
                  pharmacy_phone = ''(503) 555-0102''\<rparr>,
      medicalRecordNumber = ''MRN-1'', ssn = ''000-00-0000'', accountNumber = ''A-1'',
      companyName = ''Engines Ltd'', employerEIN = ''00-0000000'',
      employerAddress = \<lparr>street = ''3 Main St'', city = ''Salem'', state = ''OR'',
                         zipCode = ''97301'', country = None\<rparr>,
      employerIndustry = ''Computing'', employerPhone = None\<rparr>"

definition example_address :: Address where
  "example_address = \<lparr>street = ''5 Oak Ave'', city = ''Salem'', state = ''OR'', zipCode = ''97301'',
     country = None\<rparr>"

definition example_insuranceInfo :: InsuranceInfo where
  "example_insuranceInfo =
     \<lparr>primaryInsurance =
        \<lparr>insurance_provider = ''Aetna'', policyNumber = ''P-1'', groupNumber = None,
         effectiveDate = ''2025-01-01'', memberId = None, copay = Some ''$20'', deductible = None\<rparr>,
      secondaryInsurance = None,
      subscriberFirstName = ''Ada'', subscriberLastName = ''Byron'', subscriberDOB = ''12/10/1985'',
      subscriberGender = Female, insuranceType = Group, picaCode = None,
      insuranceInfo_phone = ''(503) 555-0100'', insuranceInfo_address = example_address,
      secondaryInsured = None\<rparr>"

definition example_provider :: Provider where
  "example_provider =
     \<lparr>provider_name = ''Dr. Lee'', npi = ''1234567890'', specialty = ''Family Medicine'',
      provider_phone = ''(503) 555-0110'', provider_address = example_address,
      taxId = ''00-0000001'', taxIdType = EIN, signature = None,
      facilityName = ''Oak Clinic'', facilityAddress = example_address,
      facilityPhone = ''(503) 555-0111'', facilityFax = ''(503) 555-0112'', facilityNPI = ''1234567891'',
      billingName = ''Oak Billing'', billingAddress = ''5 Oak Ave'', billingPhone = ''(503) 555-0113'',
      billingNPI = ''1234567892'', referringProvider = None\<rparr>"


text \<open>An endpoint whose first answer differs from the later ones.\<close>

definition changing_env :: env where
  "changing_env =
     \<lparr>chat_completions_create =
        (\<lambda>client k. if k = 0 then Completion (Some [Some ''{}''])
                     else Completion (Some [Some ''{\"extra\":1}''])),
      request_time = (\<lambda>k. 250),
      JSON_parse = example_parse,
      validateWithSchema = example_validator,
      formatZodErrors = example_format,
      Math_random = (\<lambda>k. 1 / 2)\<rparr>"

definition short_cache :: CacheConfig where
  "short_cache = \<lparr>enabled = True, directory = ''.cache/ai-data-tests'', ttl = 1\<rparr>"

text \<open>
  Two sequential calls for the same claim-information key, the second one 5 ms after the
  first has returned, with a time-to-live of 1 ms.
\<close>

definition expired_first :: "(thrown + jsval) \<times> world" where
  "expired_first =
     generateClaimInfoWithAI changing_env example_config example_individual example_insuranceInfo
       example_provider short_cache world0"

definition expired_second :: "(thrown + jsval) \<times> world" where
  "expired_second =
     generateClaimInfoWithAI changing_env example_config example_individual example_insuranceInfo
       example_provider short_cache
       ((snd expired_first)\<lparr>now := now (snd expired_first) + 5\<rparr>)"

text \<open>Two sequential calls for the provider key when the model's value fails validation.\<close>

definition failed_first :: "(thrown + jsval) \<times> world" where
  "failed_first = generate (answering ''[]'') (GenerateProvider example_config) example_cache world0"

definition failed_second :: "(thrown + jsval) \<times> world" where
  "failed_second =
     generate (answering ''[]'') (GenerateProvider example_config) example_cache (snd failed_first)"

text \<open>One batch call for two test types, on an empty cache.\<close>

definition first_batch :: "(thrown + jsval list) \<times> world" where
  "first_batch =
     generateLabReportsWithAI (keeping (answering ''{}'')) example_config [''CBC'', ''BMP''] ''Dr. Lee''
       example_cache world0"

text \<open>
  Five requests of which the second and the fourth are answered with a value that fails
  validation.
\<close>

definition batch_env :: env where
  "batch_env =
     \<lparr>chat_completions_create =
        (\<lambda>client k. if k = 0 then Completion (Some [Some ''{\"testName\":\"A\"}''])
                     else if k = 1 then Completion (Some [Some ''[]''])
                     else if k = 2 then Completion (Some [Some ''{\"testName\":\"B\"}''])
                     else if k = 3 then Completion (Some [Some ''[]''])
                     else Completion (Some [Some ''{\"testName\":\"C\"}''])),
      request_time = (\<lambda>k. 250),
      JSON_parse = example_parse,
      validateWithSchema = keeping_validator,
      formatZodErrors = example_format,
      Math_random = (\<lambda>k. 1 / 2)\<rparr>"

section \<open>Endpoint configuration\<close>

lemma trim_empty_iff: "trim s = [] \<longleftrightarrow> (\<forall>c\<in>set s. is_space c)"
proof (cases "dropWhile is_space s")
  case Nil
  then have "\<forall>c\<in>set s. is_space c" by (simp add: dropWhile_eq_Nil_conv)
  then show ?thesis unfolding trim_def Nil by simp
next
  case (Cons c cs)
  then have "\<not> is_space c"
    by (metis hd_dropWhile list.sel(1) list.distinct(1))
  moreover have "c \<in> set s"
    by (metis Cons list.set_intros(1) set_dropWhileD)
  moreover have "trim s \<noteq> []"
    using Cons \<open>\<not> is_space c\<close> by (auto simp: trim_def dropWhile_eq_Nil_conv)
  ultimately show ?thesis by auto
qed

lemma blank_iff: "blank x \<longleftrightarrow> x = None \<or> (\<exists>s. x = Some s \<and> (\<forall>c\<in>set s. is_space c))"
  by (cases x) (auto simp: trim_empty_iff)

text \<open>
  Claim C8. \<^verbatim>\<open>validateAzureConfig\<close> reports a configuration invalid exactly when the
  endpoint, the API key or the deployment name is absent or blank (nothing but white
  space), or the endpoint is not accepted by the URL parser; and when \<^verbatim>\<open>apiVersion\<close>
  is absent, the client is built with the version \<^verbatim>\<open>2025-04-01-preview\<close>.
\<close>

theorem validateAzureConfig_invalid_iff:
  "(\<not> valid (validateAzureConfig url_parses config)) =
     ((endpoint config = None \<or> (\<exists>s. endpoint config = Some s \<and> (\<forall>c\<in>set s. is_space c)))
      \<or> (apiKey config = None \<or> (\<exists>s. apiKey config = Some s \<and> (\<forall>c\<in>set s. is_space c)))
      \<or> (deploymentName config = None
          \<or> (\<exists>s. deploymentName config = Some s \<and> (\<forall>c\<in>set s. is_space c)))
      \<or> (\<exists>url. endpoint config = Some url \<and> \<not> url_parses url))
   \<and> (apiVersion config = None \<longrightarrow>
        client_apiVersion (createAzureOpenAIClient config) = ''2025-04-01-preview'')"
proof -
  have "(\<not> valid (validateAzureConfig url_parses config)) =
          (blank (endpoint config) \<or> blank (apiKey config) \<or> blank (deploymentName config)
           \<or> (\<exists>url. endpoint config = Some url \<and> \<not> url_parses url))"
    by (cases "endpoint config") (auto simp: validateAzureConfig_def)
  then show ?thesis
    by (simp add: blank_iff createAzureOpenAIClient_def)
qed

theorem validateAzureConfig_invalid_iff_witness:
  "valid (validateAzureConfig https_only example_config)
   \<and> apiVersion example_config = None
   \<and> client_apiVersion (createAzureOpenAIClient example_config) = ''2025-04-01-preview''"
  using validateAzureConfig_invalid_iff [of https_only example_config]
  by (simp add: example_config_def https_only_def is_space_def)

section \<open>Model Invoker\<close>

lemma attempt_result_Inr:
  assumes "attempt_result env config k = Inr v"
  shows "(\<exists>kvs. v = JObj kvs) \<or> (\<exists>xs. v = JArr xs)"
  using assms
  by (cases v)
     (auto simp: attempt_result_def Let_def
           split: response.splits option.splits list.splits if_splits sum.splits)

text \<open>
  Claim C2, as the code has it. When the endpoint answers with a first message content
  \<open>body\<close>, the attempt succeeds with \<open>v\<close> exactly when the body is not blank and parses
  to \<open>v\<close>, and \<open>v\<close> is a JSON object or a JSON array (the values whose \<^verbatim>\<open>typeof\<close> is
  \<^verbatim>\<open>'object'\<close>, \<^verbatim>\<open>null\<close> apart). A failed attempt that is not the last one sleeps and
  goes on to the next attempt.
\<close>

theorem attempt_success_iff:
  "(chat_completions_create env (createAzureOpenAIClient config) k
      = Completion (Some (Some body # rest)) \<longrightarrow>
    (attempt_result env config k = Inr v)
      = (body \<noteq> [] \<and> trim body \<noteq> [] \<and> JSON_parse env body = Inr v
         \<and> ((\<exists>kvs. v = JObj kvs) \<or> (\<exists>xs. v = JArr xs))))
   \<and> (attempt_result env config (calls w) = Inl e \<and> attempt < retries - 1 \<longrightarrow>
        generateDataWithAI_loop env config retries attempt lastError w
          = generateDataWithAI_loop env config retries (attempt + 1) (Some (as_Error e))
              (w\<lparr>calls := calls w + 1,
                 delays := delays w @ [1000 * (attempt + 1)],
                 now := now w + int (request_time env (calls w)) + int (1000 * (attempt + 1))\<rparr>))"
proof (intro conjI impI)
  assume "chat_completions_create env (createAzureOpenAIClient config) k
            = Completion (Some (Some body # rest))"
  then show "(attempt_result env config k = Inr v)
           = (body \<noteq> [] \<and> trim body \<noteq> [] \<and> JSON_parse env body = Inr v
              \<and> ((\<exists>kvs. v = JObj kvs) \<or> (\<exists>xs. v = JArr xs)))"
    by (cases v) (auto simp: attempt_result_def Let_def split: sum.splits)
next
  assume failed: "attempt_result env config (calls w) = Inl e \<and> attempt < retries - 1"
  then have "attempt < retries" by arith
  with failed show "generateDataWithAI_loop env config retries attempt lastError w
          = generateDataWithAI_loop env config retries (attempt + 1) (Some (as_Error e))
              (w\<lparr>calls := calls w + 1,
                 delays := delays w @ [1000 * (attempt + 1)],
                 now := now w + int (request_time env (calls w)) + int (1000 * (attempt + 1))\<rparr>)"
    by (subst generateDataWithAI_loop.simps) (simp add: Let_def)
qed

theorem attempt_success_iff_witness:
  "attempt_result (answering ''{}'') example_config 0 = Inr (JObj [])
   \<and> attempt_result (answering ''42'') example_config 0
       = Inl (Error ''Invalid JSON structure: expected object, got number'')
   \<and> attempt_result (answering ''null'') example_config 0
       = Inl (Error ''Invalid JSON structure: expected object, got object'')"
  using attempt_success_iff [of "answering ''{}''" example_config 0 "''{}''" "[]" "JObj []"]
    attempt_success_iff [of "answering ''42''" example_config 0 "''42''" "[]" "JNum 42"]
    attempt_success_iff [of "answering ''null''" example_config 0 "''null''" "[]" JNull]
  by (simp add: answering_def example_parse_def trim_def is_space_def attempt_result_def)

text \<open>
  Claim C2 as stated fails: a body that parses to a JSON array is a successful attempt,
  and the array is returned without a retry.
\<close>

theorem array_body_counterexample:
  "JSON_parse (answering ''[]'') ''[]'' = Inr (JArr [])
   \<and> attempt_result (answering ''[]'') example_config 0 = Inr (JArr [])
   \<and> fst (generateDataWithAI (answering ''[]'') example_config 3 world0) = Inr (JArr [])
   \<and> calls (snd (generateDataWithAI (answering ''[]'') example_config 3 world0)) = 1"
  by (simp add: attempt_result_def answering_def example_parse_def trim_def is_space_def
        generateDataWithAI_def generateDataWithAI_loop.simps [of _ _ 3] world0_def)

text \<open>
  Claim C3. With three attempts allowed and every attempt failing, exactly three attempts
  are made, the error of the third one is thrown (as an \<^verbatim>\<open>Error\<close>), the invoker sleeps
  \<open>1000 * (i + 1)\<close> milliseconds after the failed attempts \<open>i = 0\<close> and \<open>i = 1\<close>, and does
  not sleep after the last.
\<close>

theorem retry_bound:
  assumes "\<forall>k<3. isl (attempt_result env config (calls w + k))"
  shows "fst (generateDataWithAI env config 3 w)
           = Inl (as_Error (projl (attempt_result env config (calls w + 2))))
       \<and> calls (snd (generateDataWithAI env config 3 w)) = calls w + 3
       \<and> delays (snd (generateDataWithAI env config 3 w)) = delays w @ [1000 * (0 + 1), 1000 * (1 + 1)]
       \<and> now (snd (generateDataWithAI env config 3 w))
           = now w + int (request_time env (calls w)) + 1000
               + int (request_time env (calls w + 1)) + 2000
               + int (request_time env (calls w + 2))"
proof -
  from assms [rule_format, of 0] obtain e0 where e0: "attempt_result env config (calls w) = Inl e0"
    by (auto simp: isl_def)
  from assms [rule_format, of 1] obtain e1 where e1: "attempt_result env config (Suc (calls w)) = Inl e1"
    by (auto simp: isl_def)
  from assms [rule_format, of 2] obtain e2 where e2: "attempt_result env config (Suc (Suc (calls w))) = Inl e2"
    by (auto simp: isl_def)
  have two: "calls w + 2 = Suc (Suc (calls w))" by simp
  show ?thesis
    unfolding generateDataWithAI_def two
    by (simp add: generateDataWithAI_loop.simps [of _ _ 3] e0 e1 e2 Let_def)
qed

theorem retry_bound_witness:
  "fst (generateDataWithAI flaky_env example_config 3 world0)
     = Inl (Error ''Invalid JSON structure: expected object, got number'')
   \<and> calls (snd (generateDataWithAI flaky_env example_config 3 world0)) = 3
   \<and> delays (snd (generateDataWithAI flaky_env example_config 3 world0)) = [1000, 2000]"
proof -
  have fails: "\<forall>k<3. isl (attempt_result flaky_env example_config (calls world0 + k))"
    by (simp add: attempt_result_def flaky_env_def example_parse_def world0_def trim_def is_space_def)
  show ?thesis
    using retry_bound [OF fails]
    by (simp add: attempt_result_def flaky_env_def example_parse_def world0_def trim_def is_space_def)
qed

text \<open>
  The same for any number of attempts: all of them are made, the last error is thrown, and
  the delays slept are \<open>1000 * (i + 1)\<close> for every attempt \<open>i\<close> but the last.
\<close>

lemma loop_all_fail:
  assumes "\<forall>k < retries - attempt. isl (attempt_result env config (calls w + k))"
    and "attempt < retries"
  shows "fst (generateDataWithAI_loop env config retries attempt lastError w)
           = Inl (as_Error (projl (attempt_result env config (calls w + (retries - attempt) - 1))))
       \<and> calls (snd (generateDataWithAI_loop env config retries attempt lastError w))
           = calls w + (retries - attempt)
       \<and> delays (snd (generateDataWithAI_loop env config retries attempt lastError w))
           = delays w @ map (\<lambda>i. 1000 * (i + 1)) [attempt..<retries - 1]"
  using assms
proof (induction env config retries attempt lastError w rule: generateDataWithAI_loop.induct)
  case (1 env config retries attempt lastError w)
  from "1.prems" obtain e where e: "attempt_result env config (calls w) = Inl e"
    by (metis add.right_neutral isl_def zero_less_diff)
  show ?case
  proof (cases "attempt < retries - 1")
    case False
    with "1.prems" have last: "retries - attempt = 1" by arith
    from False "1.prems"(2) e show ?thesis
      by (subst (1 2 3) generateDataWithAI_loop.simps) (simp add: Let_def last)
  next
    case True
    let ?w' = "w\<lparr>calls := calls w + 1, now := now w + int (request_time env (calls w)),
                 delays := delays w @ [1000 * (attempt + 1)],
                 now := now w + int (request_time env (calls w)) + int (1000 * (attempt + 1))\<rparr>"
    have fails: "\<forall>k<retries - (attempt + 1). isl (attempt_result env config (calls ?w' + k))"
    proof (intro allI impI)
      fix k assume "k < retries - (attempt + 1)"
      then have "Suc k < retries - attempt" by arith
      with "1.prems"(1) have "isl (attempt_result env config (calls w + Suc k))" by blast
      then show "isl (attempt_result env config (calls ?w' + k))" by simp
    qed
    have more: "attempt + 1 < retries" using True by arith
    from "1.IH" [OF "1.prems"(2) refl e refl True refl] fails more
    show ?thesis
      using True "1.prems"(2) e
      by (subst (1 2 3) generateDataWithAI_loop.simps) (auto simp: Let_def upt_conv_Cons)
  qed
qed

lemma generateDataWithAI_all_fail:
  assumes "0 < retries" and "\<forall>k<retries. isl (attempt_result env config (calls w + k))"
  shows "fst (generateDataWithAI env config retries w)
           = Inl (as_Error (projl (attempt_result env config (calls w + retries - 1))))
       \<and> calls (snd (generateDataWithAI env config retries w)) = calls w + retries
       \<and> delays (snd (generateDataWithAI env config retries w))
           = delays w @ map (\<lambda>i. 1000 * (i + 1)) [0..<retries - 1]"
  using loop_all_fail [of retries 0 env config "w\<lparr>invocations := invocations w + 1\<rparr>" None] assms
  by (simp add: generateDataWithAI_def)

lemma loop_preserves:
  "files (snd (generateDataWithAI_loop env config retries attempt lastError w)) = files w
   \<and> draws (snd (generateDataWithAI_loop env config retries attempt lastError w)) = draws w
   \<and> validated (snd (generateDataWithAI_loop env config retries attempt lastError w)) = validated w
   \<and> invocations (snd (generateDataWithAI_loop env config retries attempt lastError w)) = invocations w"
proof (induction env config retries attempt lastError w rule: generateDataWithAI_loop.induct)
  case (1 env config retries attempt lastError w)
  show ?case
  proof (cases "attempt < retries")
    case False
    then show ?thesis by (simp add: generateDataWithAI_loop.simps)
  next
    case True
    show ?thesis
    proof (cases "attempt_result env config (calls w)")
      case (Inr v)
      with True show ?thesis by (simp add: generateDataWithAI_loop.simps)
    next
      case (Inl e)
      show ?thesis
      proof (cases "attempt < retries - 1")
        case False
        with True Inl show ?thesis by (simp add: generateDataWithAI_loop.simps)
      next
        case more: True
        from "1.IH" [OF True refl Inl refl more refl]
        show ?thesis
          using True Inl more
          by (subst (1 2 3 4) generateDataWithAI_loop.simps) (simp add: Let_def)
      qed
    qed
  qed
qed

lemma loop_Inr:
  "fst (generateDataWithAI_loop env config retries attempt lastError w) = Inr v
   \<Longrightarrow> (\<exists>kvs. v = JObj kvs) \<or> (\<exists>xs. v = JArr xs)"
proof (induction env config retries attempt lastError w rule: generateDataWithAI_loop.induct)
  case (1 env config retries attempt lastError w)
  show ?case
  proof (cases "attempt < retries")
    case False
    with "1.prems" show ?thesis by (simp add: generateDataWithAI_loop.simps)
  next
    case True
    show ?thesis
    proof (cases "attempt_result env config (calls w)")
      case (Inr v')
      with True "1.prems" have "v' = v" by (simp add: generateDataWithAI_loop.simps)
      with Inr show ?thesis using attempt_result_Inr by blast
    next
      case (Inl e)
      show ?thesis
      proof (cases "attempt < retries - 1")
        case False
        with True Inl "1.prems" show ?thesis by (simp add: generateDataWithAI_loop.simps)
      next
        case more: True
        from "1.prems" True Inl more
        have "fst (generateDataWithAI_loop env config retries (attempt + 1) (Some (as_Error e))
                (w\<lparr>calls := calls w + 1, now := now w + int (request_time env (calls w)),
                   delays := delays w @ [1000 * (attempt + 1)],
                   now := now w + int (request_time env (calls w)) + int (1000 * (attempt + 1))\<rparr>)) = Inr v"
          by (subst (asm) generateDataWithAI_loop.simps) (simp add: Let_def)
        with "1.IH" [OF True refl Inl refl more refl] show ?thesis by (simp add: Let_def)
      qed
    qed
  qed
qed

lemma generateDataWithAI_preserves:
  "files (snd (generateDataWithAI env config retries w)) = files w"
  "draws (snd (generateDataWithAI env config retries w)) = draws w"
  "validated (snd (generateDataWithAI env config retries w)) = validated w"
  "invocations (snd (generateDataWithAI env config retries w)) = invocations w + 1"
  by (simp_all add: generateDataWithAI_def loop_preserves)

lemma generateDataWithAI_Inr:
  "fst (generateDataWithAI env config retries w) = Inr v \<Longrightarrow> (\<exists>kvs. v = JObj kvs) \<or> (\<exists>xs. v = JArr xs)"
  unfolding generateDataWithAI_def by (rule loop_Inr)

section \<open>Single-document orchestrators\<close>

lemma generate_hit:
  assumes "truthy (getFromCache cacheConfig (cacheKey_of g) w)"
  shows "generate env g cacheConfig w = (Inr (the (getFromCache cacheConfig (cacheKey_of g) w)), w)"
  using assms
  by (cases g)
     (simp_all add: generateIndividualWithAI_def generateProviderWithAI_def
        generateInsuranceInfoWithAI_def generateInsuranceInfoWithAI_older_def
        generateClaimInfoWithAI_def generateMedicalHistoryWithAI_def
        generateW2WithAI_def generatePassportWithAI_def)

lemma generate_miss:
  assumes "\<not> truthy (getFromCache cacheConfig (cacheKey_of g) w)" and "config_of g = Some config"
  shows "generate env g cacheConfig w =
     (case generateDataWithAI env config 3 (before_invoke g w) of
        (Inl e, w1) \<Rightarrow> (Inl (rethrow (failure_prefix g) e), w1)
      | (Inr data, w1) \<Rightarrow>
          (case validateWithSchema env (schema_of g) (validator_input g data) of
             Failure errors \<Rightarrow>
               (Inl (Error (failure_prefix g @ invalid_prefix g @ join '', '' (formatZodErrors env errors))),
                w1\<lparr>validated := validated w1 @ [(schema_of g, validator_input g data)]\<rparr>)
           | Success validatedData \<Rightarrow>
               (Inr (produced env g w data validatedData),
                saveToCache cacheConfig (cacheKey_of g) (produced env g w data validatedData)
                  (w1\<lparr>validated := validated w1 @ [(schema_of g, validator_input g data)]\<rparr>))))"
  using assms
  by (cases g)
     (simp_all add: generateIndividualWithAI_def generateProviderWithAI_def
        generateInsuranceInfoWithAI_def generateInsuranceInfoWithAI_older_def
        generateClaimInfoWithAI_def generateMedicalHistoryWithAI_def
        generateW2WithAI_def generatePassportWithAI_def catch_rethrow_def validate_def
        subscriber_override_def subscriber_override_older_def Let_def
        split: prod.splits sum.splits validation.splits)

lemma generate_no_config:
  assumes "\<not> truthy (getFromCache cacheConfig (cacheKey_of g) w)" and "config_of g = None"
  shows "generate env g cacheConfig w =
     (Inl (Error (failure_prefix g @ ''Azure OpenAI configuration is required for AI data generation'')), w)"
  using assms
  by (cases g) (simp_all add: generateIndividualWithAI_def catch_rethrow_def)

text \<open>
  Claim C7. In every single-document orchestrator a validation failure is terminal: the
  call throws the orchestrator's own error, whose message embeds the formatted field
  errors, and the state it leaves is the state in which the Model Invoker returned, with
  the validation logged: no further attempt and no further call of the invoker is made.
\<close>
theorem validation_failure_terminal:
  assumes miss: "\<not> truthy (getFromCache cacheConfig (cacheKey_of g) w)"
    and config: "config_of g = Some config"
    and returned: "generateDataWithAI env config 3 (before_invoke g w) = (Inr data, w1)"
    and failure: "validateWithSchema env (schema_of g) (validator_input g data) = Failure errors"
  shows "generate env g cacheConfig w =
           (Inl (Error (failure_prefix g @ invalid_prefix g @ join '', '' (formatZodErrors env errors))),
            w1\<lparr>validated := validated w1 @ [(schema_of g, validator_input g data)]\<rparr>)
       \<and> calls (snd (generate env g cacheConfig w)) = calls w1
       \<and> invocations (snd (generate env g cacheConfig w)) = invocations w1"
  by (simp add: generate_miss [OF miss config] returned failure)

theorem validation_failure_terminal_witness:
  "generate (answering ''[]'') (GenerateProvider example_config) example_cache world0 =
     (Inl (Error ''Provider data generation failed: AI generated invalid provider data: root: Expected object''),
      \<lparr>files = no_files, now = 250, calls = 1, invocations = 1, draws = 0, delays = [],
        validated = [(ProviderSchema, JArr [])]\<rparr>)"
proof -
  have miss: "\<not> truthy (getFromCache example_cache (cacheKey_of (GenerateProvider example_config)) world0)"
    by (simp add: getFromCache_def example_cache_def world0_def no_files_def)
  have returned: "generateDataWithAI (answering ''[]'') example_config 3
                    (before_invoke (GenerateProvider example_config) world0)
                  = (Inr (JArr []), \<lparr>files = no_files, now = 250, calls = 1, invocations = 1, draws = 0,
                       delays = [], validated = []\<rparr>)"
    by (simp add: attempt_result_def answering_def example_parse_def trim_def is_space_def
          generateDataWithAI_def generateDataWithAI_loop.simps [of _ _ 3] world0_def)
  have failure: "validateWithSchema (answering ''[]'') (schema_of (GenerateProvider example_config))
                   (validator_input (GenerateProvider example_config) (JArr []))
                 = Failure [(''root'', ''Expected object'')]"
    by (simp add: answering_def example_validator_def)
  from validation_failure_terminal [OF miss _ returned failure] show ?thesis
    by (simp add: answering_def example_format_def)
qed

section \<open>Batch iterations\<close>

lemma labReport_iteration_hit:
  assumes "truthy (getFromCache cacheConfig
             (generateCacheKey ''generateLabReport'' [JStr testType, JStr orderingPhysician]) w)"
  shows "labReport_iteration env config orderingPhysician cacheConfig testType labReports w =
           (labReports @ [the (getFromCache cacheConfig
              (generateCacheKey ''generateLabReport'' [JStr testType, JStr orderingPhysician]) w)], w)"
  using assms by (simp add: labReport_iteration_def)

lemma labReport_iteration_miss:
  assumes "\<not> truthy (getFromCache cacheConfig
             (generateCacheKey ''generateLabReport'' [JStr testType, JStr orderingPhysician]) w)"
  shows "labReport_iteration env config orderingPhysician cacheConfig testType labReports w =
     (case generateDataWithAI env config 3 w of
        (Inl e, w1) \<Rightarrow> (labReports, w1)
      | (Inr data, w1) \<Rightarrow>
          (case validateWithSchema env LabReportSchema data of
             Failure errors \<Rightarrow> (labReports, w1\<lparr>validated := validated w1 @ [(LabReportSchema, data)]\<rparr>)
           | Success validatedReport0 \<Rightarrow>
               (let validatedReport =
                      (if \<not> truthy (map_of validatedReport0 ''testType'')
                          \<and> \<not> truthy (map_of validatedReport0 ''testName'')
                       then AList.update ''testType'' (JStr testType) validatedReport0
                       else validatedReport0) in
                (labReports @ [JObj validatedReport],
                 saveToCache cacheConfig
                   (generateCacheKey ''generateLabReport'' [JStr testType, JStr orderingPhysician])
                   (JObj validatedReport)
                   (w1\<lparr>validated := validated w1 @ [(LabReportSchema, data)]\<rparr>)))))"
  using assms
  by (simp add: labReport_iteration_def validate_def Let_def
        split: prod.splits sum.splits validation.splits)

lemma visitReport_iteration_hit:
  assumes "truthy (getFromCache cacheConfig
             (generateCacheKey ''generateVisitReport'' [JNum (int visitIndex), JStr providerName]) w)"
  shows "visitReport_iteration env config providerName cacheConfig visitIndex visitReports w =
           (visitReports @ [the (getFromCache cacheConfig
              (generateCacheKey ''generateVisitReport'' [JNum (int visitIndex), JStr providerName]) w)], w)"
  using assms by (simp add: visitReport_iteration_def)

lemma visitReport_iteration_miss:
  assumes "\<not> truthy (getFromCache cacheConfig
             (generateCacheKey ''generateVisitReport'' [JNum (int visitIndex), JStr providerName]) w)"
  shows "visitReport_iteration env config providerName cacheConfig visitIndex visitReports w =
     (case generateDataWithAI env config 3 w of
        (Inl e, w1) \<Rightarrow> (visitReports, w1)
      | (Inr data, w1) \<Rightarrow>
          (case validateWithSchema env VisitReportSchema data of
             Failure errors \<Rightarrow> (visitReports, w1\<lparr>validated := validated w1 @ [(VisitReportSchema, data)]\<rparr>)
           | Success validatedData \<Rightarrow>
               (visitReports @ [JObj validatedData],
                saveToCache cacheConfig
                  (generateCacheKey ''generateVisitReport'' [JNum (int visitIndex), JStr providerName])
                  (JObj validatedData)
                  (w1\<lparr>validated := validated w1 @ [(VisitReportSchema, data)]\<rparr>))))"
  using assms
  by (simp add: visitReport_iteration_def validate_def Let_def
        split: prod.splits sum.splits validation.splits)

section \<open>Validation gate and cache hits\<close>

text \<open>
  Claim C1. When the Schema Validator reports failure on the value obtained from the Model
  Invoker, a single-document orchestrator throws (it returns nothing) and leaves the cache
  files as they were; an iteration of a batch orchestrator leaves the result array and
  the cache files as they were.
\<close>

theorem validation_gate:
  "(\<not> truthy (getFromCache cacheConfig (cacheKey_of g) w) \<and> config_of g = Some config
      \<and> fst (generateDataWithAI env config 3 (before_invoke g w)) = Inr data
      \<and> validateWithSchema env (schema_of g) (validator_input g data) = Failure errors
    \<longrightarrow> isl (fst (generate env g cacheConfig w))
        \<and> files (snd (generate env g cacheConfig w)) = files w)
   \<and> (\<not> truthy (getFromCache cacheConfig
              (generateCacheKey ''generateLabReport'' [JStr testType, JStr orderingPhysician]) w)
      \<and> fst (generateDataWithAI env config 3 w) = Inr data
      \<and> validateWithSchema env LabReportSchema data = Failure errors
    \<longrightarrow> fst (labReport_iteration env config orderingPhysician cacheConfig testType labReports w)
          = labReports
        \<and> files (snd (labReport_iteration env config orderingPhysician cacheConfig testType labReports w))
          = files w)
   \<and> (\<not> truthy (getFromCache cacheConfig
              (generateCacheKey ''generateVisitReport'' [JNum (int visitIndex), JStr providerName]) w)
      \<and> fst (generateDataWithAI env config 3 w) = Inr data
      \<and> validateWithSchema env VisitReportSchema data = Failure errors
    \<longrightarrow> fst (visitReport_iteration env config providerName cacheConfig visitIndex visitReports w)
          = visitReports
        \<and> files (snd (visitReport_iteration env config providerName cacheConfig visitIndex visitReports w))
          = files w)"
proof (intro conjI impI)
  assume a: "\<not> truthy (getFromCache cacheConfig (cacheKey_of g) w) \<and> config_of g = Some config
      \<and> fst (generateDataWithAI env config 3 (before_invoke g w)) = Inr data
      \<and> validateWithSchema env (schema_of g) (validator_input g data) = Failure errors"
  obtain r w1 where r: "generateDataWithAI env config 3 (before_invoke g w) = (r, w1)"
    by (cases "generateDataWithAI env config 3 (before_invoke g w)")
  with a have r': "generateDataWithAI env config 3 (before_invoke g w) = (Inr data, w1)" by simp
  have "files w1 = files (before_invoke g w)"
    using generateDataWithAI_preserves(1) [of env config 3 "before_invoke g w"] r by simp
  also have "\<dots> = files w" by (cases g) simp_all
  finally have f: "files w1 = files w" .
  from a r' show "isl (fst (generate env g cacheConfig w))"
    by (simp add: generate_miss [of cacheConfig g w config])
  from a r' f show "files (snd (generate env g cacheConfig w)) = files w"
    by (simp add: generate_miss [of cacheConfig g w config])
next
  assume a: "\<not> truthy (getFromCache cacheConfig
              (generateCacheKey ''generateLabReport'' [JStr testType, JStr orderingPhysician]) w)
      \<and> fst (generateDataWithAI env config 3 w) = Inr data
      \<and> validateWithSchema env LabReportSchema data = Failure errors"
  obtain r w1 where r: "generateDataWithAI env config 3 w = (r, w1)"
    by (cases "generateDataWithAI env config 3 w")
  with a have r': "generateDataWithAI env config 3 w = (Inr data, w1)" by simp
  have f: "files w1 = files w"
    using generateDataWithAI_preserves(1) [of env config 3 w] r by simp
  from a r' show "fst (labReport_iteration env config orderingPhysician cacheConfig testType labReports w)
          = labReports"
    by (simp add: labReport_iteration_miss)
  from a r' f show "files (snd (labReport_iteration env config orderingPhysician cacheConfig testType labReports w))
          = files w"
    by (simp add: labReport_iteration_miss)
next
  assume a: "\<not> truthy (getFromCache cacheConfig
              (generateCacheKey ''generateVisitReport'' [JNum (int visitIndex), JStr providerName]) w)
      \<and> fst (generateDataWithAI env config 3 w) = Inr data
      \<and> validateWithSchema env VisitReportSchema data = Failure errors"
  obtain r w1 where r: "generateDataWithAI env config 3 w = (r, w1)"
    by (cases "generateDataWithAI env config 3 w")
  with a have r': "generateDataWithAI env config 3 w = (Inr data, w1)" by simp
  have f: "files w1 = files w"
    using generateDataWithAI_preserves(1) [of env config 3 w] r by simp
  from a r' show "fst (visitReport_iteration env config providerName cacheConfig visitIndex visitReports w)
          = visitReports"
    by (simp add: visitReport_iteration_miss)
  from a r' f show "files (snd (visitReport_iteration env config providerName cacheConfig visitIndex visitReports w))
          = files w"
    by (simp add: visitReport_iteration_miss)
qed

theorem validation_gate_witness:
  "isl (fst (generate (answering ''[]'') (GenerateProvider example_config) example_cache world0))
   \<and> files (snd (generate (answering ''[]'') (GenerateProvider example_config) example_cache world0))
       = files world0
   \<and> fst (labReport_iteration (answering ''[]'') example_config ''Dr. Lee'' example_cache ''CBC''
            [JStr ''earlier''] world0) = [JStr ''earlier'']
   \<and> fst (visitReport_iteration (answering ''[]'') example_config ''Dr. Lee'' example_cache 0
            [JStr ''earlier''] world0) = [JStr ''earlier'']"
proof -
  have returned: "fst (generateDataWithAI (answering ''[]'') example_config 3 world0) = Inr (JArr [])"
    by (simp add: attempt_result_def answering_def example_parse_def trim_def is_space_def
          generateDataWithAI_def generateDataWithAI_loop.simps [of _ _ 3] world0_def)
  have failure: "validateWithSchema (answering ''[]'') sch (JArr []) = Failure [(''root'', ''Expected object'')]"
    for sch
    by (simp add: answering_def example_validator_def)
  have miss: "getFromCache example_cache key world0 = None" for key
    by (simp add: getFromCache_def example_cache_def world0_def no_files_def)
  show ?thesis
    using validation_gate [where env = "answering ''[]''" and g = "GenerateProvider example_config"
        and config = example_config and cacheConfig = example_cache and w = world0
        and data = "JArr []" and errors = "[(''root'', ''Expected object'')]"
        and testType = "''CBC''" and orderingPhysician = "''Dr. Lee''" and labReports = "[JStr ''earlier'']"
        and visitIndex = 0 and providerName = "''Dr. Lee''" and visitReports = "[JStr ''earlier'']"]
    by (simp add: returned failure miss)
qed

text \<open>
  Claim C9. On a cache hit an orchestrator returns the cached value itself, and a batch
  iteration appends it to the result array, whatever the environment (so whatever the
  validator would say); the state, and with it the log of validated values, is unchanged.
\<close>

theorem cache_hit_bypasses_validation:
  "(getFromCache cacheConfig (cacheKey_of g) w = Some cached \<and> truthy (Some cached)
    \<longrightarrow> generate env g cacheConfig w = (Inr cached, w))
   \<and> (getFromCache cacheConfig
         (generateCacheKey ''generateLabReport'' [JStr testType, JStr orderingPhysician]) w = Some cached
       \<and> truthy (Some cached)
    \<longrightarrow> labReport_iteration env config orderingPhysician cacheConfig testType labReports w
          = (labReports @ [cached], w))
   \<and> (getFromCache cacheConfig
         (generateCacheKey ''generateVisitReport'' [JNum (int visitIndex), JStr providerName]) w = Some cached
       \<and> truthy (Some cached)
    \<longrightarrow> visitReport_iteration env config providerName cacheConfig visitIndex visitReports w
          = (visitReports @ [cached], w))"
  by (simp add: generate_hit labReport_iteration_hit visitReport_iteration_hit)

theorem cache_hit_bypasses_validation_witness:
  "generate (answering ''{}'') (GenerateProvider example_config) example_cache cached_world
     = (Inr (JArr [JStr ''stale'']), cached_world)
   \<and> validateWithSchema (answering ''{}'') ProviderSchema (JArr [JStr ''stale''])
       = Failure [(''root'', ''Expected object'')]
   \<and> labReport_iteration (answering ''{}'') example_config ''Dr. Lee'' example_cache ''CBC'' [] cached_world
       = ([JArr [JStr ''stale lab'']], cached_world)
   \<and> visitReport_iteration (answering ''{}'') example_config ''Dr. Lee'' example_cache 0 [] cached_world
       = ([JArr [JStr ''stale visit'']], cached_world)"
  using cache_hit_bypasses_validation [where env = "answering ''{}''"
      and g = "GenerateProvider example_config" and cacheConfig = example_cache and w = cached_world
      and cached = "JArr [JStr ''stale'']"]
    cache_hit_bypasses_validation [where env = "answering ''{}''" and config = example_config
      and cacheConfig = example_cache and w = cached_world and  testType = "''CBC''"
      and orderingPhysician = "''Dr. Lee''" and labReports = "[]" and cached = "JArr [JStr ''stale lab'']"]
    cache_hit_bypasses_validation [where env = "answering ''{}''" and config = example_config
      and cacheConfig = example_cache and w = cached_world and visitIndex = 0
      and providerName = "''Dr. Lee''" and visitReports = "[]" and cached = "JArr [JStr ''stale visit'']"]
  by (simp add: getFromCache_def generateCacheKey_def example_cache_def cached_world_def stale_files_def
        answering_def example_validator_def)




section \<open>Subscriber override\<close>







section \<open>Cache idempotence\<close>

lemma getFromCache_later:
  assumes "getFromCache cacheConfig key w = Some v"
    and "\<forall>entry. files w (directory cacheConfig, key) = Some entry \<longrightarrow> t - storedAt entry \<le> ttl cacheConfig"
  shows "getFromCache cacheConfig key (w\<lparr>now := t\<rparr>) = Some v"
  using assms by (auto simp: getFromCache_def split: if_splits option.splits)

lemma getFromCache_saved:
  assumes "enabled cacheConfig"
    and "\<forall>entry. files (saveToCache cacheConfig key v w) (directory cacheConfig, key) = Some entry
           \<longrightarrow> t - storedAt entry \<le> ttl cacheConfig"
  shows "getFromCache cacheConfig key ((saveToCache cacheConfig key v w)\<lparr>now := t\<rparr>) = Some v"
  using assms by (auto simp: getFromCache_def saveToCache_def)

lemma truthy_produced:
  assumes "fst (generateDataWithAI env config n w0) = Inr data"
  shows "truthy (Some (produced env g w data validatedData))"
proof (cases g)
  case (GenerateClaimInfo c i ins p)
  from generateDataWithAI_Inr [OF assms] show ?thesis
    unfolding GenerateClaimInfo by auto
qed simp_all

lemma invocations_before_invoke: "invocations (before_invoke g w) = invocations w"
  by (cases g) simp_all

lemma generate_idempotent:
  assumes on: "enabled cacheConfig"
    and first: "generate env g cacheConfig w = (Inr v, w1)"
    and fresh: "\<forall>entry. files w1 (directory cacheConfig, cacheKey_of g) = Some entry
                  \<longrightarrow> t - storedAt entry \<le> ttl cacheConfig"
  shows "generate env' g cacheConfig (w1\<lparr>now := t\<rparr>) = (Inr v, w1\<lparr>now := t\<rparr>)
       \<and> invocations w1 \<le> invocations w + 1"
proof (cases "truthy (getFromCache cacheConfig (cacheKey_of g) w)")
  case True
  from generate_hit [OF True, of env] first
  have v: "getFromCache cacheConfig (cacheKey_of g) w = Some v" and w1: "w1 = w"
    using True by (cases "getFromCache cacheConfig (cacheKey_of g) w"; simp)+
  from getFromCache_later [OF v] fresh w1
  have "getFromCache cacheConfig (cacheKey_of g) (w1\<lparr>now := t\<rparr>) = Some v" by simp
  moreover from True v have "truthy (Some v)" by simp
  ultimately show ?thesis
    using generate_hit [of cacheConfig g "w1\<lparr>now := t\<rparr>" env'] w1 by simp
next
  case False
  show ?thesis
  proof (cases "config_of g")
    case None
    from generate_no_config [OF False None, of env] first show ?thesis by simp
  next
    case (Some config)
    obtain r w' where r: "generateDataWithAI env config 3 (before_invoke g w) = (r, w')"
      by (cases "generateDataWithAI env config 3 (before_invoke g w)")
    from generate_miss [OF False Some, of env] first r
    obtain data validatedData where
      data: "r = Inr data"
      and v: "v = produced env g w data validatedData"
      and w1: "w1 = saveToCache cacheConfig (cacheKey_of g) v
                      (w'\<lparr>validated := validated w' @ [(schema_of g, validator_input g data)]\<rparr>)"
      by (auto split: sum.splits validation.splits)
    have "truthy (Some v)"
      unfolding v using r data by (intro truthy_produced [of env config 3 "before_invoke g w"]) simp
    moreover have "getFromCache cacheConfig (cacheKey_of g) (w1\<lparr>now := t\<rparr>) = Some v"
      unfolding w1 using fresh by (intro getFromCache_saved [OF on]) (simp add: w1)
    ultimately have "generate env' g cacheConfig (w1\<lparr>now := t\<rparr>) = (Inr v, w1\<lparr>now := t\<rparr>)"
      using generate_hit [of cacheConfig g "w1\<lparr>now := t\<rparr>" env'] by simp
    moreover have "invocations w1 = invocations w + 1"
      using generateDataWithAI_preserves(4) [of env config 3 "before_invoke g w"] r
      by (simp add: w1 saveToCache_def invocations_before_invoke)
    ultimately show ?thesis by simp
  qed
qed

lemma labReport_idempotent:
  assumes on: "enabled cacheConfig"
    and first: "labReport_iteration env config orderingPhysician cacheConfig testType labReports w
                  = (labReports @ [v], w1)"
    and fresh: "\<forall>entry. files w1 (directory cacheConfig,
                     generateCacheKey ''generateLabReport'' [JStr testType, JStr orderingPhysician]) = Some entry
                  \<longrightarrow> t - storedAt entry \<le> ttl cacheConfig"
  shows "labReport_iteration env' config' orderingPhysician cacheConfig testType labReports' (w1\<lparr>now := t\<rparr>)
           = (labReports' @ [v], w1\<lparr>now := t\<rparr>)
       \<and> invocations w1 \<le> invocations w + 1"
proof -
  let ?key = "generateCacheKey ''generateLabReport'' [JStr testType, JStr orderingPhysician]"
  show ?thesis
  proof (cases "truthy (getFromCache cacheConfig ?key w)")
    case True
    from labReport_iteration_hit [OF True, of env config labReports] first
    have v: "getFromCache cacheConfig ?key w = Some v" and w1: "w1 = w"
      using True by (cases "getFromCache cacheConfig ?key w"; simp)+
    from getFromCache_later [OF v] fresh w1
    have "getFromCache cacheConfig ?key (w1\<lparr>now := t\<rparr>) = Some v" by simp
    moreover from True v have "truthy (Some v)" by simp
    ultimately show ?thesis
      using labReport_iteration_hit [of cacheConfig testType orderingPhysician "w1\<lparr>now := t\<rparr>" env' config' labReports'] w1
      by simp
  next
    case False
    obtain r w' where r: "generateDataWithAI env config 3 w = (r, w')"
      by (cases "generateDataWithAI env config 3 w")
    from labReport_iteration_miss [OF False, of env config labReports] first r
    obtain data out where
      v: "v = JObj out"
      and w1: "w1 = saveToCache cacheConfig ?key v (w'\<lparr>validated := validated w' @ [(LabReportSchema, data)]\<rparr>)"
      by (auto simp: Let_def split: sum.splits validation.splits if_splits)
    have "getFromCache cacheConfig ?key (w1\<lparr>now := t\<rparr>) = Some v"
      unfolding w1 using fresh by (intro getFromCache_saved [OF on]) (simp add: w1)
    then have "labReport_iteration env' config' orderingPhysician cacheConfig testType labReports' (w1\<lparr>now := t\<rparr>)
           = (labReports' @ [v], w1\<lparr>now := t\<rparr>)"
      using labReport_iteration_hit [of cacheConfig testType orderingPhysician "w1\<lparr>now := t\<rparr>" env' config' labReports'] v
      by simp
    moreover have "invocations w1 = invocations w + 1"
      using generateDataWithAI_preserves(4) [of env config 3 w] r
      by (simp add: w1 saveToCache_def)
    ultimately show ?thesis by simp
  qed
qed

lemma visitReport_idempotent:
  assumes on: "enabled cacheConfig"
    and first: "visitReport_iteration env config providerName cacheConfig visitIndex visitReports w
                  = (visitReports @ [v], w1)"
    and fresh: "\<forall>entry. files w1 (directory cacheConfig,
                     generateCacheKey ''generateVisitReport'' [JNum (int visitIndex), JStr providerName]) = Some entry
                  \<longrightarrow> t - storedAt entry \<le> ttl cacheConfig"
  shows "visitReport_iteration env' config' providerName cacheConfig visitIndex visitReports' (w1\<lparr>now := t\<rparr>)
           = (visitReports' @ [v], w1\<lparr>now := t\<rparr>)
       \<and> invocations w1 \<le> invocations w + 1"
proof -
  let ?key = "generateCacheKey ''generateVisitReport'' [JNum (int visitIndex), JStr providerName]"
  show ?thesis
  proof (cases "truthy (getFromCache cacheConfig ?key w)")
    case True
    from visitReport_iteration_hit [OF True, of env config visitReports] first
    have v: "getFromCache cacheConfig ?key w = Some v" and w1: "w1 = w"
      using True by (cases "getFromCache cacheConfig ?key w"; simp)+
    from getFromCache_later [OF v] fresh w1
    have "getFromCache cacheConfig ?key (w1\<lparr>now := t\<rparr>) = Some v" by simp
    moreover from True v have "truthy (Some v)" by simp
    ultimately show ?thesis
      using visitReport_iteration_hit [of cacheConfig visitIndex providerName "w1\<lparr>now := t\<rparr>" env' config' visitReports'] w1
      by simp
  next
    case False
    obtain r w' where r: "generateDataWithAI env config 3 w = (r, w')"
      by (cases "generateDataWithAI env config 3 w")
    from visitReport_iteration_miss [OF False, of env config visitReports] first r
    obtain data out where
      v: "v = JObj out"
      and w1: "w1 = saveToCache cacheConfig ?key v (w'\<lparr>validated := validated w' @ [(VisitReportSchema, data)]\<rparr>)"
      by (auto simp: Let_def split: sum.splits validation.splits if_splits)
    have "getFromCache cacheConfig ?key (w1\<lparr>now := t\<rparr>) = Some v"
      unfolding w1 using fresh by (intro getFromCache_saved [OF on]) (simp add: w1)
    then have "visitReport_iteration env' config' providerName cacheConfig visitIndex visitReports' (w1\<lparr>now := t\<rparr>)
           = (visitReports' @ [v], w1\<lparr>now := t\<rparr>)"
      using visitReport_iteration_hit [of cacheConfig visitIndex providerName "w1\<lparr>now := t\<rparr>" env' config' visitReports'] v
      by simp
    moreover have "invocations w1 = invocations w + 1"
      using generateDataWithAI_preserves(4) [of env config 3 w] r
      by (simp add: w1 saveToCache_def)
    ultimately show ?thesis by simp
  qed
qed

text \<open>
  Claim C6, as the code has it. With caching enabled, when a call of a single-document
  orchestrator has returned a value, a second call with the same arguments made while the
  cache entry has not expired returns the same value and leaves the state unchanged (it
  invokes nothing, whatever the environment then is); the first call has invoked the
  model at most once. The same holds for an iteration of a batch orchestrator that has
  appended a value. Nothing is promised when the first call has thrown or the entry has
  expired.
\<close>

theorem cache_idempotence:
  "(enabled cacheConfig \<and> generate env g cacheConfig w = (Inr v, w1)
      \<and> (\<forall>entry. files w1 (directory cacheConfig, cacheKey_of g) = Some entry
                  \<longrightarrow> t - storedAt entry \<le> ttl cacheConfig)
    \<longrightarrow> generate env' g cacheConfig (w1\<lparr>now := t\<rparr>) = (Inr v, w1\<lparr>now := t\<rparr>)
        \<and> invocations w1 \<le> invocations w + 1)
   \<and> (enabled cacheConfig
      \<and> labReport_iteration env config orderingPhysician cacheConfig testType labReports w
          = (labReports @ [v], w1)
      \<and> (\<forall>entry. files w1 (directory cacheConfig,
                     generateCacheKey ''generateLabReport'' [JStr testType, JStr orderingPhysician]) = Some entry
                  \<longrightarrow> t - storedAt entry \<le> ttl cacheConfig)
    \<longrightarrow> labReport_iteration env' config' orderingPhysician cacheConfig testType labReports' (w1\<lparr>now := t\<rparr>)
           = (labReports' @ [v], w1\<lparr>now := t\<rparr>)
        \<and> invocations w1 \<le> invocations w + 1)
   \<and> (enabled cacheConfig
      \<and> visitReport_iteration env config providerName cacheConfig visitIndex visitReports w
          = (visitReports @ [v], w1)
      \<and> (\<forall>entry. files w1 (directory cacheConfig,
                     generateCacheKey ''generateVisitReport'' [JNum (int visitIndex), JStr providerName]) = Some entry
                  \<longrightarrow> t - storedAt entry \<le> ttl cacheConfig)
    \<longrightarrow> visitReport_iteration env' config' providerName cacheConfig visitIndex visitReports' (w1\<lparr>now := t\<rparr>)
           = (visitReports' @ [v], w1\<lparr>now := t\<rparr>)
        \<and> invocations w1 \<le> invocations w + 1)"
  using generate_idempotent [of cacheConfig env g w v w1 t env']
    labReport_idempotent [of cacheConfig env config orderingPhysician testType labReports w v w1 t env' config' labReports']
    visitReport_idempotent [of cacheConfig env config providerName visitIndex visitReports w v w1 t env' config' visitReports']
  by blast

theorem cache_idempotence_witness:
  "generate (answering ''{}'') (GenerateProvider example_config) example_cache world0
     = (Inr (JObj []),
        \<lparr>files = no_files((''.cache/ai-data-tests'', (''generateProvider'', []))
                     \<mapsto> \<lparr>payload = JObj [], storedAt = 250\<rparr>),
          now = 250, calls = 1, invocations = 1, draws = 0, delays = [],
          validated = [(ProviderSchema, JObj [])]\<rparr>)
   \<and> generate (answering ''[]'') (GenerateProvider example_config) example_cache
       \<lparr>files = no_files((''.cache/ai-data-tests'', (''generateProvider'', []))
                     \<mapsto> \<lparr>payload = JObj [], storedAt = 250\<rparr>),
          now = 1250, calls = 1, invocations = 1, draws = 0, delays = [],
          validated = [(ProviderSchema, JObj [])]\<rparr>
     = (Inr (JObj []),
        \<lparr>files = no_files((''.cache/ai-data-tests'', (''generateProvider'', []))
                     \<mapsto> \<lparr>payload = JObj [], storedAt = 250\<rparr>),
          now = 1250, calls = 1, invocations = 1, draws = 0, delays = [],
          validated = [(ProviderSchema, JObj [])]\<rparr>)"
proof -
  let ?w1 = "\<lparr>files = no_files((''.cache/ai-data-tests'', (''generateProvider'', []))
                     \<mapsto> \<lparr>payload = JObj [], storedAt = 250\<rparr>),
          now = 250, calls = 1, invocations = 1, draws = 0, delays = [],
          validated = [(ProviderSchema, JObj [])]\<rparr>"
  have first: "generate (answering ''{}'') (GenerateProvider example_config) example_cache world0
                 = (Inr (JObj []), ?w1)"
    by (simp add: generateProviderWithAI_def generateCacheKey_def getFromCache_def saveToCache_def
          catch_rethrow_def validate_def example_validator_def
          attempt_result_def answering_def example_parse_def trim_def is_space_def
          generateDataWithAI_def generateDataWithAI_loop.simps [of _ _ 3] world0_def
          example_cache_def no_files_def)
  have on: "enabled example_cache" by (simp add: example_cache_def)
  have fresh: "\<forall>entry. files ?w1 (directory example_cache, cacheKey_of (GenerateProvider example_config))
                  = Some entry \<longrightarrow> 1250 - storedAt entry \<le> ttl example_cache"
    by (simp add: example_cache_def generateCacheKey_def)
  from cache_idempotence [THEN conjunct1, rule_format, OF conjI, OF on conjI, OF first fresh,
      of "answering ''[]''"] first
  show ?thesis by simp
qed

text \<open>
  Claim C6 as stated fails. With a time-to-live of 1 ms, a second call made 5 ms after the
  first has returned invokes the model again and returns another value; after a first
  call whose value failed validation, a second call invokes the model again; and a single
  batch call for two test types invokes the model twice.
\<close>

theorem cache_idempotence_counterexample:
  "fst expired_first = Inr (JObj [])
   \<and> fst expired_second = Inr (JObj [(''extra'', JNum 1)])
   \<and> invocations (snd expired_second) = 2
   \<and> isl (fst failed_first)
   \<and> isl (fst failed_second)
   \<and> invocations (snd failed_second) = 2
   \<and> fst first_batch = Inr [JObj [(''testType'', JStr ''CBC'')], JObj [(''testType'', JStr ''BMP'')]]
   \<and> invocations (snd first_batch) = 2"
proof -
  have e1: "expired_first =
      (Inr (JObj []),
       \<lparr>files = no_files((''.cache/ai-data-tests'', (''generateClaimInfo'', [JStr ''p-1'']))
                     \<mapsto> \<lparr>payload = JObj [], storedAt = 250\<rparr>),
         now = 250, calls = 1, invocations = 1, draws = 0, delays = [],
         validated = [(ClaimInfoSchema, JObj [])]\<rparr>)"
    by (simp add: expired_first_def generateClaimInfoWithAI_def generateCacheKey_def getFromCache_def
          saveToCache_def catch_rethrow_def validate_def example_validator_def
          attempt_result_def changing_env_def example_parse_def trim_def is_space_def
          generateDataWithAI_def generateDataWithAI_loop.simps [of _ _ 3] world0_def
          short_cache_def no_files_def example_individual_def)
  have e2: "fst expired_second = Inr (JObj [(''extra'', JNum 1)]) \<and> invocations (snd expired_second) = 2"
    by (simp add: expired_second_def e1 generateClaimInfoWithAI_def generateCacheKey_def getFromCache_def
          saveToCache_def catch_rethrow_def validate_def example_validator_def
          attempt_result_def changing_env_def example_parse_def trim_def is_space_def
          generateDataWithAI_def generateDataWithAI_loop.simps [of _ _ 3]
          short_cache_def example_individual_def)
  have f1: "failed_first =
      (Inl (Error ''Provider data generation failed: AI generated invalid provider data: root: Expected object''),
       \<lparr>files = no_files, now = 250, calls = 1, invocations = 1, draws = 0, delays = [],
         validated = [(ProviderSchema, JArr [])]\<rparr>)"
    by (simp add: failed_first_def generateProviderWithAI_def generateCacheKey_def getFromCache_def
          catch_rethrow_def validate_def example_validator_def example_format_def
          attempt_result_def answering_def example_parse_def trim_def is_space_def
          generateDataWithAI_def generateDataWithAI_loop.simps [of _ _ 3] world0_def
          example_cache_def no_files_def)
  have f2: "isl (fst failed_second) \<and> invocations (snd failed_second) = 2"
    by (simp add: failed_second_def f1 generateProviderWithAI_def generateCacheKey_def getFromCache_def
          catch_rethrow_def validate_def example_validator_def example_format_def
          attempt_result_def answering_def example_parse_def trim_def is_space_def
          generateDataWithAI_def generateDataWithAI_loop.simps [of _ _ 3]
          example_cache_def no_files_def)
  have invoke: "generateDataWithAI (keeping (answering ''{}'')) example_config 3
                  \<lparr>files = fs, now = t, calls = k, invocations = n, draws = 0, delays = [], validated = vs\<rparr>
                = (Inr (JObj []),
                   \<lparr>files = fs, now = t + 250, calls = k + 1, invocations = n + 1, draws = 0,
                     delays = [], validated = vs\<rparr>)" for fs t k n vs
    by (simp add: attempt_result_def answering_def keeping_def example_parse_def trim_def is_space_def
          generateDataWithAI_def generateDataWithAI_loop.simps [of _ _ 3])
  have accept: "validateWithSchema (keeping (answering ''{}'')) = keeping_validator"
    by (simp add: answering_def keeping_def)
  have b: "fst first_batch = Inr [JObj [(''testType'', JStr ''CBC'')], JObj [(''testType'', JStr ''BMP'')]]
           \<and> invocations (snd first_batch) = 2"
    by (simp add: first_batch_def generateLabReportsWithAI_def labReport_iteration_def invoke accept
          world0_def getFromCache_def saveToCache_def generateCacheKey_def validate_def
          keeping_validator_def example_cache_def no_files_def Let_def)
  show ?thesis by (simp add: e1 e2 f1 f2 b)
qed

section \<open>Batch orchestrators\<close>

lemma labReport_iteration_append:
  "labReport_iteration env config orderingPhysician cacheConfig testType labReports w =
     (labReports @ fst (labReport_iteration env config orderingPhysician cacheConfig testType [] w),
      snd (labReport_iteration env config orderingPhysician cacheConfig testType [] w))
   \<and> length (fst (labReport_iteration env config orderingPhysician cacheConfig testType [] w)) \<le> 1"
proof (cases "truthy (getFromCache cacheConfig
                (generateCacheKey ''generateLabReport'' [JStr testType, JStr orderingPhysician]) w)")
  case True
  then show ?thesis by (simp add: labReport_iteration_hit)
next
  case False
  then show ?thesis
    by (simp add: labReport_iteration_miss Let_def split: prod.splits sum.splits validation.splits)
qed

lemma visitReport_iteration_append:
  "visitReport_iteration env config providerName cacheConfig visitIndex visitReports w =
     (visitReports @ fst (visitReport_iteration env config providerName cacheConfig visitIndex [] w),
      snd (visitReport_iteration env config providerName cacheConfig visitIndex [] w))
   \<and> length (fst (visitReport_iteration env config providerName cacheConfig visitIndex [] w)) \<le> 1"
proof (cases "truthy (getFromCache cacheConfig
                (generateCacheKey ''generateVisitReport'' [JNum (int visitIndex), JStr providerName]) w)")
  case True
  then show ?thesis by (simp add: visitReport_iteration_hit)
next
  case False
  then show ?thesis
    by (simp add: visitReport_iteration_miss Let_def split: prod.splits sum.splits validation.splits)
qed

lemma map_filter_appended:
  "length pushed \<le> 1 \<Longrightarrow>
     List.map_filter (\<lambda>outcome. outcome) (appended pushed # outcomes)
       = pushed @ List.map_filter (\<lambda>outcome. outcome) outcomes"
  by (cases pushed) (simp_all add: appended_def)

lemma labReports_loop_outcomes:
  "fst (labReports_loop env config orderingPhysician cacheConfig testTypes labReports w)
     = labReports @ List.map_filter (\<lambda>outcome. outcome)
                      (labReport_outcomes env config orderingPhysician cacheConfig testTypes w)"
proof (induction testTypes arbitrary: labReports w)
  case Nil
  show ?case by simp
next
  case (Cons testType rest)
  obtain pushed w' where it: "labReport_iteration env config orderingPhysician cacheConfig testType [] w
                               = (pushed, w')"
    by (cases "labReport_iteration env config orderingPhysician cacheConfig testType [] w")
  from labReport_iteration_append [of env config orderingPhysician cacheConfig testType labReports w] it
  have step: "labReport_iteration env config orderingPhysician cacheConfig testType labReports w
                = (labReports @ pushed, w')" and short: "length pushed \<le> 1"
    by simp_all
  show ?case
    using Cons.IH [of "labReports @ pushed" w']
    by (simp add: step it map_filter_appended [OF short] del: map_filter_simps)
qed

lemma length_labReport_outcomes:
  "length (labReport_outcomes env config orderingPhysician cacheConfig testTypes w) = length testTypes"
  by (induction testTypes arbitrary: w) (simp_all split: prod.splits)

lemma visitReports_loop_outcomes:
  "fst (visitReports_loop env config numberOfVisits providerName cacheConfig i visitReports w)
     = visitReports @ List.map_filter (\<lambda>outcome. outcome)
                      (visitReport_outcomes env config numberOfVisits providerName cacheConfig i w)"
proof (induction env config numberOfVisits providerName cacheConfig i visitReports w
       rule: visitReports_loop.induct)
  case (1 env config numberOfVisits providerName cacheConfig i visitReports w)
  show ?case
  proof (cases "int i < numberOfVisits")
    case False
    then show ?thesis
      by (simp add: visitReports_loop.simps visitReport_outcomes.simps)
  next
    case True
    obtain pushed w' where it: "visitReport_iteration env config providerName cacheConfig i [] w
                                 = (pushed, w')"
      by (cases "visitReport_iteration env config providerName cacheConfig i [] w")
    from visitReport_iteration_append [of env config providerName cacheConfig i visitReports w] it
    have step: "visitReport_iteration env config providerName cacheConfig i visitReports w
                  = (visitReports @ pushed, w')" and short: "length pushed \<le> 1"
      by simp_all
    from "1.IH" [OF True step [symmetric]]
    have "fst (visitReports_loop env config numberOfVisits providerName cacheConfig (i + 1)
                 (visitReports @ pushed) w')
            = (visitReports @ pushed) @ List.map_filter (\<lambda>outcome. outcome)
                (visitReport_outcomes env config numberOfVisits providerName cacheConfig (i + 1) w')" .
    then show ?thesis
      using True
      by (subst visitReports_loop.simps, subst visitReport_outcomes.simps)
         (simp add: step it map_filter_appended [OF short] del: map_filter_simps)
  qed
qed

lemma length_visitReport_outcomes:
  "length (visitReport_outcomes env config numberOfVisits providerName cacheConfig i w)
     = nat (numberOfVisits - int i)"
proof (induction env config numberOfVisits providerName cacheConfig i w
       rule: visitReport_outcomes.induct)
  case (1 env config numberOfVisits providerName cacheConfig i w)
  show ?case
  proof (cases "int i < numberOfVisits")
    case False
    then show ?thesis by (simp add: visitReport_outcomes.simps)
  next
    case True
    obtain pushed w' where it: "visitReport_iteration env config providerName cacheConfig i [] w
                                 = (pushed, w')"
      by (cases "visitReport_iteration env config providerName cacheConfig i [] w")
    from "1.IH" [OF True it [symmetric]] True show ?thesis
      by (subst visitReport_outcomes.simps) (simp add: it nat_diff_distrib')
  qed
qed

text \<open>
  Claim C5. A batch call never throws. Its result is the list of the values appended for
  the requested items, in request order, with nothing for the dropped ones; every
  requested item has an outcome, so the loop goes on after a failure; and an iteration
  whose Model Invoker call exhausts its retries, or whose value fails validation, leaves
  the array as it was.
\<close>

theorem batch_partial_failure:
  "fst (generateLabReportsWithAI env config testTypes orderingPhysician cacheConfig w)
     = Inr (List.map_filter (\<lambda>outcome. outcome)
              (labReport_outcomes env config orderingPhysician cacheConfig testTypes w))
   \<and> length (labReport_outcomes env config orderingPhysician cacheConfig testTypes w) = length testTypes
   \<and> (\<not> truthy (getFromCache cacheConfig
              (generateCacheKey ''generateLabReport'' [JStr testType, JStr orderingPhysician]) w')
       \<and> (isl (fst (generateDataWithAI env config 3 w'))
           \<or> (\<exists>data errors. fst (generateDataWithAI env config 3 w') = Inr data
                 \<and> validateWithSchema env LabReportSchema data = Failure errors))
      \<longrightarrow> fst (labReport_iteration env config orderingPhysician cacheConfig testType labReports w')
            = labReports)
   \<and> fst (generateVisitReportsWithAI env config numberOfVisits providerName cacheConfig w)
     = Inr (List.map_filter (\<lambda>outcome. outcome)
              (visitReport_outcomes env config numberOfVisits providerName cacheConfig 0 w))
   \<and> length (visitReport_outcomes env config numberOfVisits providerName cacheConfig 0 w)
     = nat numberOfVisits
   \<and> (\<not> truthy (getFromCache cacheConfig
              (generateCacheKey ''generateVisitReport'' [JNum (int visitIndex), JStr providerName]) w')
       \<and> (isl (fst (generateDataWithAI env config 3 w'))
           \<or> (\<exists>data errors. fst (generateDataWithAI env config 3 w') = Inr data
                 \<and> validateWithSchema env VisitReportSchema data = Failure errors))
      \<longrightarrow> fst (visitReport_iteration env config providerName cacheConfig visitIndex visitReports w')
            = visitReports)"
proof (intro conjI impI)
  show "fst (generateLabReportsWithAI env config testTypes orderingPhysician cacheConfig w)
     = Inr (List.map_filter (\<lambda>outcome. outcome)
              (labReport_outcomes env config orderingPhysician cacheConfig testTypes w))"
    using labReports_loop_outcomes [of env config orderingPhysician cacheConfig testTypes "[]" w]
    by (simp add: generateLabReportsWithAI_def case_prod_beta)
  show "length (labReport_outcomes env config orderingPhysician cacheConfig testTypes w) = length testTypes"
    by (rule length_labReport_outcomes)
  show "fst (generateVisitReportsWithAI env config numberOfVisits providerName cacheConfig w)
     = Inr (List.map_filter (\<lambda>outcome. outcome)
              (visitReport_outcomes env config numberOfVisits providerName cacheConfig 0 w))"
    using visitReports_loop_outcomes [of env config numberOfVisits providerName cacheConfig 0 "[]" w]
    by (simp add: generateVisitReportsWithAI_def case_prod_beta)
  show "length (visitReport_outcomes env config numberOfVisits providerName cacheConfig 0 w)
     = nat numberOfVisits"
    by (simp add: length_visitReport_outcomes)
next
  assume a: "\<not> truthy (getFromCache cacheConfig
              (generateCacheKey ''generateLabReport'' [JStr testType, JStr orderingPhysician]) w')
       \<and> (isl (fst (generateDataWithAI env config 3 w'))
           \<or> (\<exists>data errors. fst (generateDataWithAI env config 3 w') = Inr data
                 \<and> validateWithSchema env LabReportSchema data = Failure errors))"
  then show "fst (labReport_iteration env config orderingPhysician cacheConfig testType labReports w')
            = labReports"
    by (cases "generateDataWithAI env config 3 w'")
       (auto simp: labReport_iteration_miss isl_def split: sum.splits)
next
  assume a: "\<not> truthy (getFromCache cacheConfig
              (generateCacheKey ''generateVisitReport'' [JNum (int visitIndex), JStr providerName]) w')
       \<and> (isl (fst (generateDataWithAI env config 3 w'))
           \<or> (\<exists>data errors. fst (generateDataWithAI env config 3 w') = Inr data
                 \<and> validateWithSchema env VisitReportSchema data = Failure errors))"
  then show "fst (visitReport_iteration env config providerName cacheConfig visitIndex visitReports w')
            = visitReports"
    by (cases "generateDataWithAI env config 3 w'")
       (auto simp: visitReport_iteration_miss isl_def split: sum.splits)
qed

lemma batch_generate:
  "generateDataWithAI batch_env example_config 3
     \<lparr>files = fs, now = t, calls = k, invocations = n, draws = 0, delays = [], validated = vs\<rparr>
   = (Inr (if k = 0 then JObj [(''testName'', JStr ''A'')]
           else if k = 1 then JArr []
           else if k = 2 then JObj [(''testName'', JStr ''B'')]
           else if k = 3 then JArr []
           else JObj [(''testName'', JStr ''C'')]),
      \<lparr>files = fs, now = t + 250, calls = k + 1, invocations = n + 1, draws = 0, delays = [],
        validated = vs\<rparr>)"
  by (simp add: attempt_result_def batch_env_def example_parse_def trim_def is_space_def
        generateDataWithAI_def generateDataWithAI_loop.simps [of _ _ 3])


lemma batch_validate: "validateWithSchema batch_env = keeping_validator"
  by (simp add: batch_env_def)

theorem batch_partial_failure_witness:
  "fst (generateLabReportsWithAI batch_env example_config [''CBC'', ''BMP'', ''CMP'', ''Lipid'', ''LFT'']
          ''Dr. Lee'' example_cache world0)
     = Inr [JObj [(''testName'', JStr ''A'')], JObj [(''testName'', JStr ''B'')],
            JObj [(''testName'', JStr ''C'')]]
   \<and> labReport_outcomes batch_env example_config ''Dr. Lee'' example_cache
         [''CBC'', ''BMP'', ''CMP'', ''Lipid'', ''LFT''] world0
     = [Some (JObj [(''testName'', JStr ''A'')]), None, Some (JObj [(''testName'', JStr ''B'')]), None,
        Some (JObj [(''testName'', JStr ''C'')])]
   \<and> fst (generateVisitReportsWithAI batch_env example_config 5 ''Dr. Lee'' example_cache world0)
     = Inr [JObj [(''testName'', JStr ''A'')], JObj [(''testName'', JStr ''B'')],
            JObj [(''testName'', JStr ''C'')]]"
proof -
  have labs: "labReport_outcomes batch_env example_config ''Dr. Lee'' example_cache
         [''CBC'', ''BMP'', ''CMP'', ''Lipid'', ''LFT''] world0
     = [Some (JObj [(''testName'', JStr ''A'')]), None, Some (JObj [(''testName'', JStr ''B'')]), None,
        Some (JObj [(''testName'', JStr ''C'')])]"
    by (simp add: world0_def labReport_iteration_def batch_generate batch_validate getFromCache_def
          saveToCache_def generateCacheKey_def validate_def keeping_validator_def example_cache_def
          no_files_def appended_def Let_def)
  have visits: "visitReport_outcomes batch_env example_config 5 ''Dr. Lee'' example_cache 0 world0
     = [Some (JObj [(''testName'', JStr ''A'')]), None, Some (JObj [(''testName'', JStr ''B'')]), None,
        Some (JObj [(''testName'', JStr ''C'')])]"
    by (simp add: world0_def visitReport_outcomes.simps [of _ _ 5] visitReport_iteration_def
          batch_generate batch_validate getFromCache_def
          saveToCache_def generateCacheKey_def validate_def keeping_validator_def example_cache_def
          no_files_def appended_def Let_def)
  note inst = batch_partial_failure [where env = batch_env and config = example_config
      and testTypes = "[''CBC'', ''BMP'', ''CMP'', ''Lipid'', ''LFT'']" and orderingPhysician = "''Dr. Lee''"
      and cacheConfig = example_cache and w = world0 and numberOfVisits = 5
      and providerName = "''Dr. Lee''" and testType = "''CBC''" and w' = world0 and labReports = "[]"
      and visitIndex = 0 and visitReports = "[]"]
  from inst [THEN conjunct1, unfolded labs]
    inst [THEN conjunct2, THEN conjunct2, THEN conjunct2, THEN conjunct1, unfolded visits]
    labs
  show ?thesis by simp
qed

end
